theory Spec2Isabelle
  imports Main "HOL-Library.Word"
begin

unbundle bit_operations_syntax

section \<open>Common types\<close>

type_synonym byte = "8 word"

text \<open>
  The status codes that the two backends return (\<^verbatim>\<open>dc_status_t\<close>). The specification calls
  them InvalidArgument, OutOfMemory, IOError, Timeout, ProtocolError, DataFormatError,
  Cancelled and Unsupported.
\<close>

datatype dc_status_t =
    DC_STATUS_SUCCESS
  | DC_STATUS_UNSUPPORTED
  | DC_STATUS_INVALIDARGS
  | DC_STATUS_NOMEMORY
  | DC_STATUS_IO
  | DC_STATUS_TIMEOUT
  | DC_STATUS_PROTOCOL
  | DC_STATUS_DATAFORMAT
  | DC_STATUS_CANCELLED

text \<open>
  The macro \<^verbatim>\<open>EXITCODE\<close> of both source files: the return value \<open>-1\<close> of a transport call
  is a hard failure, every other unexpected count a timeout.
\<close>

definition EXITCODE :: "int \<Rightarrow> dc_status_t" where
  "EXITCODE rc = (if rc = - 1 then DC_STATUS_IO else DC_STATUS_TIMEOUT)"

subsection \<open>Codec helpers\<close>

text \<open>
  Modelled from the spec: \<^verbatim>\<open>array_uint32_le\<close>, \<^verbatim>\<open>array_uint16_le\<close> and
  \<^verbatim>\<open>array_uint16_be\<close> are declared in \<^verbatim>\<open>array.h\<close>, which is not among the sources. The
  specification gives their contract: little/big-endian integer decode from a byte slice
  (\<^verbatim>\<open>read_u32_le\<close>, \<^verbatim>\<open>read_u16_le/be\<close>). The slice is the buffer \<open>data\<close> from index
  \<open>off\<close> on, as the C pointer \<^verbatim>\<open>data + off\<close>.
\<close>

definition array_uint32_le :: "byte list \<Rightarrow> nat \<Rightarrow> 32 word" where
  "array_uint32_le data off =
     word_of_nat (unat (data ! off) + 2 ^ 8 * unat (data ! (off + 1))
       + 2 ^ 16 * unat (data ! (off + 2)) + 2 ^ 24 * unat (data ! (off + 3)))"

definition array_uint16_le :: "byte list \<Rightarrow> nat \<Rightarrow> 16 word" where
  "array_uint16_le data off =
     word_of_nat (unat (data ! off) + 2 ^ 8 * unat (data ! (off + 1)))"

definition array_uint16_be :: "byte list \<Rightarrow> nat \<Rightarrow> 16 word" where
  "array_uint16_be data off =
     word_of_nat (2 ^ 8 * unat (data ! off) + unat (data ! (off + 1)))"

text \<open>
  Modelled from the spec: \<^verbatim>\<open>checksum_xor_uint8\<close> is declared in \<^verbatim>\<open>checksum.h\<close>, which is
  not among the sources. The specification describes it as the 8-bit running XOR of the
  bytes, starting from a seed (\<^verbatim>\<open>xor8(bytes, seed)\<close>). It reads the first \<open>sz\<close> bytes.
\<close>

definition checksum_xor_uint8 :: "byte list \<Rightarrow> nat \<Rightarrow> byte \<Rightarrow> byte" where
  "checksum_xor_uint8 data sz init = foldl (\<lambda>crc b. crc XOR b) init (take sz data)"

text \<open>
  \<^verbatim>\<open>memcmp (data + off, pat, sizeof (pat)) == 0\<close>: the bytes of \<open>data\<close> from \<open>off\<close> on
  are those of \<open>pat\<close>.
\<close>

definition memcmp_eq :: "byte list \<Rightarrow> nat \<Rightarrow> byte list \<Rightarrow> bool" where
  "memcmp_eq data off pat = (take (length pat) (drop off data) = pat)"

section \<open>Device handles\<close>

text \<open>
  A handle \<^verbatim>\<open>dc_device_t *\<close> is \<open>None\<close> for \<^verbatim>\<open>NULL\<close> and \<open>Some d\<close> otherwise, where \<open>d\<close>
  is the object behind the pointer. Its \<open>backend\<close> field is the address of the backend
  table that \<^verbatim>\<open>device_init\<close> stored; only the identity of that address is ever used.
  One record holds the base fields and the fields of the concrete structs
  \<^verbatim>\<open>reefnet_sensuspro_device_t\<close> and \<^verbatim>\<open>suunto_vyper2_device_t\<close>; the type parameter
  \<open>'p\<close> is the state of the serial port behind \<^verbatim>\<open>device->port\<close>.

  Modelled from the spec: the fields \<open>cancel\<close> and \<open>events\<close> belong to the base struct of
  \<^verbatim>\<open>device-private.h\<close>, which is not among the sources. The specification describes them
  as the cooperative cancellation flag of the handle and as the event sink to which clock,
  device-info and progress events are emitted.
\<close>

datatype device_backend_ref =
    Reefnet_sensuspro_device_backend
  | Suunto_vyper2_device_backend
  | Other_device_backend nat

datatype dc_event =
    DC_EVENT_CLOCK int "32 word"
  | DC_EVENT_DEVINFO byte byte "16 word"
  | DC_EVENT_PROGRESS nat nat

record 'p dc_device =
  backend :: device_backend_ref
  cancel :: bool
  events :: "dc_event list"
  port :: 'p
  handshake :: "byte list"
  timestamp :: "32 word"
  devtime :: "32 word"
  systime :: int

definition device_is_reefnet_sensuspro :: "'p dc_device option \<Rightarrow> bool" where
  "device_is_reefnet_sensuspro abstract =
     (case abstract of
        None \<Rightarrow> False
      | Some d \<Rightarrow> backend d = Reefnet_sensuspro_device_backend)"

definition device_is_suunto_vyper2 :: "'p dc_device option \<Rightarrow> bool" where
  "device_is_suunto_vyper2 abstract =
     (case abstract of
        None \<Rightarrow> False
      | Some d \<Rightarrow> backend d = Suunto_vyper2_device_backend)"

definition device_is_cancelled :: "'p dc_device \<Rightarrow> bool" where
  "device_is_cancelled d = cancel d"

definition device_event_emit :: "'p dc_device \<Rightarrow> dc_event \<Rightarrow> 'p dc_device" where
  "device_event_emit d e = d\<lparr>events := events d @ [e]\<rparr>"

section \<open>Reefnet Sensus Pro: fingerprint and timestamp\<close>

text \<open>
  Every operation returns its status together with the object behind the handle after the
  call (\<open>None\<close> when there is none). After the family guard the source casts the handle
  to the concrete struct; the \<open>None\<close> branch of the case distinction that stands for the
  cast is never reached, because the guard rejects \<^verbatim>\<open>NULL\<close>.
\<close>

definition reefnet_sensuspro_device_set_timestamp ::
  "'p dc_device option \<Rightarrow> 32 word \<Rightarrow> dc_status_t \<times> 'p dc_device option" where
  "reefnet_sensuspro_device_set_timestamp abstract ts =
     (if \<not> device_is_reefnet_sensuspro abstract then (DC_STATUS_INVALIDARGS, abstract)
      else
        (case abstract of
           None \<Rightarrow> (DC_STATUS_INVALIDARGS, abstract)
         | Some device \<Rightarrow> (DC_STATUS_SUCCESS, Some (device\<lparr>timestamp := ts\<rparr>))))"

text \<open>The argument \<^verbatim>\<open>size\<close> is an \<^verbatim>\<open>unsigned int\<close>; it is only compared with 0 and 4.\<close>

definition reefnet_sensuspro_device_set_fingerprint ::
  "'p dc_device option \<Rightarrow> byte list \<Rightarrow> nat \<Rightarrow> dc_status_t \<times> 'p dc_device option" where
  "reefnet_sensuspro_device_set_fingerprint abstract data sz =
     (if \<not> device_is_reefnet_sensuspro abstract then (DC_STATUS_INVALIDARGS, abstract)
      else
        (case abstract of
           None \<Rightarrow> (DC_STATUS_INVALIDARGS, abstract)
         | Some device \<Rightarrow>
             if sz \<noteq> 0 \<and> sz \<noteq> 4 then (DC_STATUS_INVALIDARGS, abstract)
             else if sz \<noteq> 0 then
               (DC_STATUS_SUCCESS, Some (device\<lparr>timestamp := array_uint32_le data 0\<rparr>))
             else (DC_STATUS_SUCCESS, Some (device\<lparr>timestamp := 0\<rparr>))))"

section \<open>Reefnet Sensus Pro: dive extraction\<close>

definition header :: "byte list" where
  "header = [0x00, 0x00, 0x00, 0x00]"

definition footer :: "byte list" where
  "footer = [0xFF, 0xFF]"

text \<open>
  What one invocation of the callback receives: the dive is the range of \<open>dive_size\<close> bytes
  at \<^verbatim>\<open>data + dive_offset\<close>, its fingerprint the \<open>fp_size\<close> bytes at
  \<^verbatim>\<open>data + fp_offset\<close>. The callback returns an \<^verbatim>\<open>int\<close> (zero to stop) and may change
  the state behind \<^verbatim>\<open>userdata\<close>.
\<close>

record dive_view =
  dive_offset :: nat
  dive_size :: nat
  fp_offset :: nat
  fp_size :: nat

type_synonym 'u dc_dive_callback_t = "dive_view \<Rightarrow> 'u \<Rightarrow> int \<times> 'u"

text \<open>
  The inner loop of \<^verbatim>\<open>reefnet_sensuspro_extract_dives\<close>: the forward search for the stop
  marker from \<open>offset\<close>, bounded by \<open>previous\<close>. The result is \<open>Some offset\<close> when the loop
  leaves with \<^verbatim>\<open>found = 1\<close>, and \<open>None\<close> when it leaves with \<^verbatim>\<open>found = 0\<close>.

  The cursors are \<^verbatim>\<open>unsigned int\<close> in the source and natural numbers here. No cursor
  exceeds the buffer size by more than 7, so the arithmetic of the source is exact for every
  buffer with \<open>size + 7 < 2 ^ 32\<close>; the theorems below are stated for such buffers.
\<close>

function find_footer :: "byte list \<Rightarrow> nat \<Rightarrow> nat \<Rightarrow> nat option" where
  "find_footer data previous offset =
     (if offset + 2 \<le> previous then
        (if memcmp_eq data offset footer then Some offset
         else find_footer data previous (offset + 1))
      else None)"
  by pat_completeness auto
termination
  by (relation "measure (\<lambda>(data, previous, offset). previous - offset)") auto

text \<open>
  The outer loop, with the state \<open>previous\<close>, \<open>current\<close>, the user data and the list of
  callback invocations made so far (oldest first).
\<close>

function extract_loop ::
  "byte list \<Rightarrow> 'p dc_device option \<Rightarrow> 'u dc_dive_callback_t option \<Rightarrow> nat \<Rightarrow> nat \<Rightarrow> 'u
     \<Rightarrow> dive_view list \<Rightarrow> dc_status_t \<times> dive_view list \<times> 'u" where
  "extract_loop data device callback previous current userdata calls =
     (if 0 < current then
        (let current = current - 1 in
         if memcmp_eq data current header then
           (case find_footer data previous (current + 10) of
              None \<Rightarrow> (DC_STATUS_DATAFORMAT, calls, userdata)
            | Some offset \<Rightarrow>
                (let ts = array_uint32_le data (current + 6);
                     view = \<lparr>dive_offset = current, dive_size = offset + 2 - current,
                             fp_offset = current + 6, fp_size = 4\<rparr>
                 in
                 if (case device of None \<Rightarrow> False | Some d \<Rightarrow> ts \<le> timestamp d)
                 then (DC_STATUS_SUCCESS, calls, userdata)
                 else
                   (case callback of
                      None \<Rightarrow>
                        extract_loop data device callback current
                          (if current \<ge> 4 then current - 4 else 0) userdata calls
                    | Some cb \<Rightarrow>
                        (case cb view userdata of
                           (rc, userdata') \<Rightarrow>
                             if rc = 0 then (DC_STATUS_SUCCESS, calls @ [view], userdata')
                             else
                               extract_loop data device callback current
                                 (if current \<ge> 4 then current - 4 else 0) userdata'
                                 (calls @ [view])))))
         else extract_loop data device callback previous current userdata calls)
      else (DC_STATUS_SUCCESS, calls, userdata))"
  by pat_completeness auto
termination
  by (relation "measure (\<lambda>(data, device, callback, previous, current, userdata, calls). current)")
    auto

declare find_footer.simps [simp del]
declare extract_loop.simps [simp del]

text \<open>The buffer \<open>data\<close> holds exactly \<^verbatim>\<open>size\<close> bytes, so \<^verbatim>\<open>size\<close> is its length.\<close>

definition reefnet_sensuspro_extract_dives ::
  "'p dc_device option \<Rightarrow> byte list \<Rightarrow> 'u dc_dive_callback_t option \<Rightarrow> 'u
     \<Rightarrow> dc_status_t \<times> dive_view list \<times> 'u" where
  "reefnet_sensuspro_extract_dives abstract data callback userdata =
     (if abstract \<noteq> None \<and> \<not> device_is_reefnet_sensuspro abstract
      then (DC_STATUS_INVALIDARGS, [], userdata)
      else
        extract_loop data abstract callback (length data)
          (if length data \<ge> 4 then length data - 4 else 0) userdata [])"

section \<open>External collaborators\<close>

text \<open>
  The transport (\<^verbatim>\<open>serial.h\<close>), the CRC (\<^verbatim>\<open>checksum.h\<close>), the clock, the buffer
  allocator, the constants of \<^verbatim>\<open>reefnet_sensuspro.h\<close> and the shared Suunto code
  (\<^verbatim>\<open>suunto_common2.h\<close>) are not among the sources. They are parameters of the model: every
  function below takes a value \<open>ext\<close> of this record, and every theorem holds for all of
  them. A transport function gets the state \<open>'p\<close> of the port and returns the new one.
  \<open>serial_read\<close> also gets the present contents of the destination and returns its new
  contents; \<open>serial_read\<close>, \<open>serial_write\<close> and \<open>serial_close\<close> return the \<^verbatim>\<open>int\<close> of
  the C function. \<open>dc_buffer_alloc n\<close> tells whether an allocation of \<open>n\<close> bytes succeeds.
\<close>

record 'p externals =
  serial_sleep :: "'p \<Rightarrow> nat \<Rightarrow> 'p"
  serial_set_rts :: "'p \<Rightarrow> int \<Rightarrow> 'p"
  serial_set_break :: "'p \<Rightarrow> int \<Rightarrow> 'p"
  serial_write :: "'p \<Rightarrow> byte list \<Rightarrow> nat \<Rightarrow> int \<times> 'p"
  serial_read :: "'p \<Rightarrow> byte list \<Rightarrow> nat \<Rightarrow> int \<times> byte list \<times> 'p"
  serial_close :: "'p \<Rightarrow> int \<times> 'p"
  checksum_crc_ccitt_uint16 :: "byte list \<Rightarrow> nat \<Rightarrow> 16 word"
  dc_datetime_now :: int
  dc_buffer_alloc :: "nat \<Rightarrow> bool"
  REEFNET_SENSUSPRO_HANDSHAKE_SIZE :: nat
  REEFNET_SENSUSPRO_MEMORY_SIZE :: nat
  suunto_common2_device_reset_maxdepth ::
    "'p dc_device option \<Rightarrow> dc_status_t \<times> 'p dc_device option"

text \<open>
  Modelled from the spec: the buffer functions of \<^verbatim>\<open>buffer.h\<close> are not among the sources.
  The specification describes the raw buffer as a growable byte sequence; a
  \<^verbatim>\<open>dc_buffer_t *\<close> is \<open>None\<close> for \<^verbatim>\<open>NULL\<close>. Each function returns its truth value and
  the buffer after the call.
\<close>

type_synonym dc_buffer_t = "byte list option"

definition dc_buffer_new :: "'p externals \<Rightarrow> nat \<Rightarrow> dc_buffer_t" where
  "dc_buffer_new ext capacity = (if dc_buffer_alloc ext capacity then Some [] else None)"

definition dc_buffer_clear :: "dc_buffer_t \<Rightarrow> bool \<times> dc_buffer_t" where
  "dc_buffer_clear buffer = (case buffer of None \<Rightarrow> (False, None) | Some b \<Rightarrow> (True, Some []))"

definition dc_buffer_reserve :: "'p externals \<Rightarrow> dc_buffer_t \<Rightarrow> nat \<Rightarrow> bool \<times> dc_buffer_t" where
  "dc_buffer_reserve ext buffer capacity =
     (case buffer of
        None \<Rightarrow> (False, None)
      | Some b \<Rightarrow> (dc_buffer_alloc ext capacity, Some b))"

definition dc_buffer_append :: "dc_buffer_t \<Rightarrow> byte list \<Rightarrow> nat \<Rightarrow> dc_buffer_t" where
  "dc_buffer_append buffer data sz =
     (case buffer of None \<Rightarrow> None | Some b \<Rightarrow> Some (b @ take sz data))"

text \<open>Writing \<open>bytes\<close> into the array \<open>buf\<close> from index \<open>off\<close> on.\<close>

definition store_bytes :: "byte list \<Rightarrow> nat \<Rightarrow> byte list \<Rightarrow> byte list" where
  "store_bytes buf off bytes = take off buf @ bytes @ drop (off + length bytes) buf"

section \<open>Reefnet Sensus Pro: the device operations\<close>

definition reefnet_sensuspro_device_close ::
  "'p externals \<Rightarrow> 'p dc_device option \<Rightarrow> dc_status_t \<times> 'p dc_device option" where
  "reefnet_sensuspro_device_close ext abstract =
     (if \<not> device_is_reefnet_sensuspro abstract then (DC_STATUS_INVALIDARGS, abstract)
      else
        (case abstract of
           None \<Rightarrow> (DC_STATUS_INVALIDARGS, abstract)
         | Some device \<Rightarrow>
             (case serial_close ext (port device) of
                (rc, p) \<Rightarrow>
                  if rc = - 1 then (DC_STATUS_IO, None)
                  else (DC_STATUS_SUCCESS, None))))"

text \<open>The third component of the result is the caller's array \<open>data\<close> after the call.\<close>

definition reefnet_sensuspro_device_get_handshake ::
  "'p externals \<Rightarrow> 'p dc_device option \<Rightarrow> byte list \<Rightarrow> nat
     \<Rightarrow> dc_status_t \<times> 'p dc_device option \<times> byte list" where
  "reefnet_sensuspro_device_get_handshake ext abstract data sz =
     (if \<not> device_is_reefnet_sensuspro abstract then (DC_STATUS_INVALIDARGS, abstract, data)
      else
        (case abstract of
           None \<Rightarrow> (DC_STATUS_INVALIDARGS, abstract, data)
         | Some device \<Rightarrow>
             if sz < REEFNET_SENSUSPRO_HANDSHAKE_SIZE ext
             then (DC_STATUS_INVALIDARGS, abstract, data)
             else
               (DC_STATUS_SUCCESS, abstract,
                store_bytes data 0
                  (take (REEFNET_SENSUSPRO_HANDSHAKE_SIZE ext) (handshake device)))))"

definition reefnet_sensuspro_handshake ::
  "'p externals \<Rightarrow> 'p dc_device \<Rightarrow> dc_status_t \<times> 'p dc_device" where
  "reefnet_sensuspro_handshake ext device =
     (let hsize = REEFNET_SENSUSPRO_HANDSHAKE_SIZE ext;
          p = serial_set_break ext (port device) 1
      in
      case serial_read ext p (replicate (hsize + 2) 0) (hsize + 2) of
        (rc, hs, p) \<Rightarrow>
          if rc \<noteq> int (hsize + 2) then (EXITCODE rc, device\<lparr>port := p\<rparr>)
          else
            (let p = serial_set_break ext p 0;
                 crc = array_uint16_le hs hsize;
                 ccrc = checksum_crc_ccitt_uint16 ext hs hsize
             in
             if crc \<noteq> ccrc then (DC_STATUS_PROTOCOL, device\<lparr>port := p\<rparr>)
             else
               (let device = device\<lparr>port := p, systime := dc_datetime_now ext,
                                     devtime := array_uint32_le hs 6,
                                     handshake := take hsize hs\<rparr>;
                    device = device_event_emit device
                               (DC_EVENT_CLOCK (systime device) (devtime device));
                    device = device_event_emit device
                               (DC_EVENT_DEVINFO (hs ! 0) (hs ! 1) (array_uint16_le hs 4));
                    device = device\<lparr>port := serial_sleep ext (port device) 10\<rparr>
                in (DC_STATUS_SUCCESS, device))))"

definition reefnet_sensuspro_send ::
  "'p externals \<Rightarrow> 'p dc_device \<Rightarrow> byte \<Rightarrow> dc_status_t \<times> 'p dc_device" where
  "reefnet_sensuspro_send ext device command =
     (case reefnet_sensuspro_handshake ext device of
        (rc, device) \<Rightarrow>
          if rc \<noteq> DC_STATUS_SUCCESS then (rc, device)
          else
            (case serial_write ext (port device) [command] 1 of
               (n, p) \<Rightarrow>
                 if n \<noteq> 1 then (EXITCODE n, device\<lparr>port := p\<rparr>)
                 else (DC_STATUS_SUCCESS, device\<lparr>port := p\<rparr>)))"

text \<open>
  The reading loop of \<^verbatim>\<open>reefnet_sensuspro_device_dump\<close>; \<open>alen\<close> is
  \<^verbatim>\<open>sizeof (answer)\<close> and \<open>progress_current\<close> the field \<^verbatim>\<open>progress.current\<close>. The first component of
  the result is the status with which the loop returns from the function, if it does.
\<close>

function dump_loop ::
  "'p externals \<Rightarrow> nat \<Rightarrow> 'p dc_device \<Rightarrow> byte list \<Rightarrow> nat \<Rightarrow> nat
     \<Rightarrow> dc_status_t option \<times> byte list \<times> 'p dc_device" where
  "dump_loop ext alen device answer nbytes progress_current =
     (if nbytes < alen then
        (let len = (if alen - nbytes > 256 then 256 else alen - nbytes) in
         case serial_read ext (port device) (take len (drop nbytes answer)) len of
           (n, chunk, p) \<Rightarrow>
             if n \<noteq> int len
             then (Some (EXITCODE n), store_bytes answer nbytes chunk, device\<lparr>port := p\<rparr>)
             else
               dump_loop ext alen
                 (device_event_emit (device\<lparr>port := p\<rparr>)
                    (DC_EVENT_PROGRESS (progress_current + len) alen))
                 (store_bytes answer nbytes chunk) (nbytes + len) (progress_current + len))
      else (None, answer, device))"
  by pat_completeness auto
termination
  by (relation "measure (\<lambda>(ext, alen, device, answer, nbytes, progress_current). alen - nbytes)") auto

declare dump_loop.simps [simp del]

definition reefnet_sensuspro_device_dump ::
  "'p externals \<Rightarrow> 'p dc_device option \<Rightarrow> dc_buffer_t
     \<Rightarrow> dc_status_t \<times> 'p dc_device option \<times> dc_buffer_t" where
  "reefnet_sensuspro_device_dump ext abstract buffer =
     (if \<not> device_is_reefnet_sensuspro abstract then (DC_STATUS_INVALIDARGS, abstract, buffer)
      else
        (case abstract of
           None \<Rightarrow> (DC_STATUS_INVALIDARGS, abstract, buffer)
         | Some device \<Rightarrow>
             (let msize = REEFNET_SENSUSPRO_MEMORY_SIZE ext in
              case dc_buffer_clear buffer of
                (cleared, buffer) \<Rightarrow>
                  if \<not> cleared \<or> \<not> fst (dc_buffer_reserve ext buffer msize)
                  then (DC_STATUS_NOMEMORY, abstract, buffer)
                  else
                    (let device = device_event_emit device (DC_EVENT_PROGRESS 0 (msize + 2)) in
                     case reefnet_sensuspro_send ext device 0xB4 of
                       (rc, device) \<Rightarrow>
                         if rc \<noteq> DC_STATUS_SUCCESS then (rc, Some device, buffer)
                         else
                           (case dump_loop ext (msize + 2) device
                                   (replicate (msize + 2) 0) 0 0 of
                              (Some rc, answer, device) \<Rightarrow> (rc, Some device, buffer)
                            | (None, answer, device) \<Rightarrow>
                                (let crc = array_uint16_le answer msize;
                                     ccrc = checksum_crc_ccitt_uint16 ext answer msize
                                 in
                                 if crc \<noteq> ccrc then (DC_STATUS_PROTOCOL, Some device, buffer)
                                 else
                                   (DC_STATUS_SUCCESS, Some device,
                                    dc_buffer_append buffer answer msize)))))))"

text \<open>
  The result of \<open>foreach\<close> carries the callback invocations and the user data as well. The
  buffer is local to the function and freed on every path.
\<close>

definition reefnet_sensuspro_device_foreach ::
  "'p externals \<Rightarrow> 'p dc_device option \<Rightarrow> 'u dc_dive_callback_t option \<Rightarrow> 'u
     \<Rightarrow> dc_status_t \<times> 'p dc_device option \<times> dive_view list \<times> 'u" where
  "reefnet_sensuspro_device_foreach ext abstract callback userdata =
     (if \<not> device_is_reefnet_sensuspro abstract
      then (DC_STATUS_INVALIDARGS, abstract, [], userdata)
      else
        (case dc_buffer_new ext (REEFNET_SENSUSPRO_MEMORY_SIZE ext) of
           None \<Rightarrow> (DC_STATUS_NOMEMORY, abstract, [], userdata)
         | Some b \<Rightarrow>
             (case reefnet_sensuspro_device_dump ext abstract (Some b) of
                (rc, abstract, buffer) \<Rightarrow>
                  if rc \<noteq> DC_STATUS_SUCCESS then (rc, abstract, [], userdata)
                  else
                    (case reefnet_sensuspro_extract_dives abstract
                            (case buffer of None \<Rightarrow> [] | Some bytes \<Rightarrow> bytes)
                            callback userdata of
                       (rc, calls, userdata) \<Rightarrow> (rc, abstract, calls, userdata)))))"

definition reefnet_sensuspro_device_write_interval ::
  "'p externals \<Rightarrow> 'p dc_device option \<Rightarrow> byte
     \<Rightarrow> dc_status_t \<times> 'p dc_device option" where
  "reefnet_sensuspro_device_write_interval ext abstract interval =
     (if \<not> device_is_reefnet_sensuspro abstract then (DC_STATUS_INVALIDARGS, abstract)
      else
        (case abstract of
           None \<Rightarrow> (DC_STATUS_INVALIDARGS, abstract)
         | Some device \<Rightarrow>
             if interval < 1 \<or> interval > 127 then (DC_STATUS_INVALIDARGS, abstract)
             else
               (case reefnet_sensuspro_send ext device 0xB5 of
                  (rc, device) \<Rightarrow>
                    if rc \<noteq> DC_STATUS_SUCCESS then (rc, Some device)
                    else
                      (let p = serial_sleep ext (port device) 10 in
                       case serial_write ext p [interval] 1 of
                         (n, p) \<Rightarrow>
                           if n \<noteq> 1 then (EXITCODE n, Some (device\<lparr>port := p\<rparr>))
                           else (DC_STATUS_SUCCESS, Some (device\<lparr>port := p\<rparr>))))))"

section \<open>Suunto Vyper2\<close>

definition suunto_vyper2_device_close ::
  "'p externals \<Rightarrow> 'p dc_device option \<Rightarrow> dc_status_t \<times> 'p dc_device option" where
  "suunto_vyper2_device_close ext abstract =
     (if \<not> device_is_suunto_vyper2 abstract then (DC_STATUS_INVALIDARGS, abstract)
      else
        (case abstract of
           None \<Rightarrow> (DC_STATUS_INVALIDARGS, abstract)
         | Some device \<Rightarrow>
             (case serial_close ext (port device) of
                (rc, p) \<Rightarrow>
                  if rc = - 1 then (DC_STATUS_IO, None)
                  else (DC_STATUS_SUCCESS, None))))"

text \<open>
  One packet exchange. The function is \<^verbatim>\<open>static\<close>, reached through the backend table
  only, and dereferences its handle without a guard; the model therefore takes the object
  behind the handle. The sizes are \<^verbatim>\<open>unsigned int\<close>, so 32-bit words: in
  \<^verbatim>\<open>n != csize\<close> the \<^verbatim>\<open>int\<close> \<open>n\<close> is converted to \<^verbatim>\<open>unsigned int\<close>, and
  \<^verbatim>\<open>asize - size - 4\<close> and \<^verbatim>\<open>asize - 1\<close> wrap around. The sum
  \<^verbatim>\<open>array_uint16_be (answer + 1) + 4\<close> is at most 65539 and does not wrap. The result
  holds the status, the array \<open>answer\<close> after the call and the device after the call.
\<close>

definition suunto_vyper2_device_packet ::
  "'p externals \<Rightarrow> 'p dc_device \<Rightarrow> byte list \<Rightarrow> 32 word \<Rightarrow> byte list \<Rightarrow> 32 word \<Rightarrow> 32 word
     \<Rightarrow> dc_status_t \<times> byte list \<times> 'p dc_device" where
  "suunto_vyper2_device_packet ext device command csize answer asize sz =
     (if device_is_cancelled device then (DC_STATUS_CANCELLED, answer, device)
      else
        (let p = serial_sleep ext (port device) 600;
             p = serial_set_rts ext p 1
         in
         case serial_write ext p command (unat csize) of
           (n, p) \<Rightarrow>
             if word_of_int n \<noteq> csize then (EXITCODE n, answer, device\<lparr>port := p\<rparr>)
             else
               (let p = serial_set_rts ext p 0 in
                case serial_read ext p answer (unat asize) of
                  (n, answer, p) \<Rightarrow>
                    (let device = device\<lparr>port := p\<rparr> in
                     if word_of_int n \<noteq> asize then (EXITCODE n, answer, device)
                     else if answer ! 0 \<noteq> command ! 0
                     then (DC_STATUS_PROTOCOL, answer, device)
                     else if ucast (array_uint16_be answer 1) + 4 \<noteq> asize
                     then (DC_STATUS_PROTOCOL, answer, device)
                     else if take (unat (asize - sz - 4)) (drop 3 command)
                               \<noteq> take (unat (asize - sz - 4)) (drop 3 answer)
                     then (DC_STATUS_PROTOCOL, answer, device)
                     else
                       (let crc = answer ! unat (asize - 1);
                            ccrc = checksum_xor_uint8 answer (unat (asize - 1)) 0x00
                        in
                        if crc \<noteq> ccrc then (DC_STATUS_PROTOCOL, answer, device)
                        else (DC_STATUS_SUCCESS, answer, device))))))"

definition suunto_vyper2_device_reset_maxdepth ::
  "'p externals \<Rightarrow> 'p dc_device option \<Rightarrow> dc_status_t \<times> 'p dc_device option" where
  "suunto_vyper2_device_reset_maxdepth ext abstract =
     (if \<not> device_is_suunto_vyper2 abstract then (DC_STATUS_INVALIDARGS, abstract)
      else suunto_common2_device_reset_maxdepth ext abstract)"

section \<open>Event flags\<close>

text \<open>The constants of \<^verbatim>\<open>parser.h\<close>; the field \<^verbatim>\<open>flags\<close> is an \<^verbatim>\<open>unsigned int\<close>.\<close>

definition SAMPLE_FLAGS_NONE :: "32 word" where "SAMPLE_FLAGS_NONE = 0"
definition SAMPLE_FLAGS_BEGIN :: "32 word" where "SAMPLE_FLAGS_BEGIN = push_bit 0 1"
definition SAMPLE_FLAGS_END :: "32 word" where "SAMPLE_FLAGS_END = push_bit 1 1"
definition SAMPLE_FLAGS_SEVERITY_MASK :: "32 word" where "SAMPLE_FLAGS_SEVERITY_MASK = push_bit 2 7"

definition SAMPLE_FLAGS_SEVERITY_SHIFT :: nat where "SAMPLE_FLAGS_SEVERITY_SHIFT = 2"

definition SAMPLE_FLAGS_SEVERITY_MISSING :: "32 word" where
  "SAMPLE_FLAGS_SEVERITY_MISSING = push_bit SAMPLE_FLAGS_SEVERITY_SHIFT 0"
definition SAMPLE_FLAGS_SEVERITY_STATE :: "32 word" where
  "SAMPLE_FLAGS_SEVERITY_STATE = push_bit SAMPLE_FLAGS_SEVERITY_SHIFT 1"
definition SAMPLE_FLAGS_SEVERITY_INFO :: "32 word" where
  "SAMPLE_FLAGS_SEVERITY_INFO = push_bit SAMPLE_FLAGS_SEVERITY_SHIFT 2"
definition SAMPLE_FLAGS_SEVERITY_WARN :: "32 word" where
  "SAMPLE_FLAGS_SEVERITY_WARN = push_bit SAMPLE_FLAGS_SEVERITY_SHIFT 3"
definition SAMPLE_FLAGS_SEVERITY_ALARM :: "32 word" where
  "SAMPLE_FLAGS_SEVERITY_ALARM = push_bit SAMPLE_FLAGS_SEVERITY_SHIFT 4"

definition SAMPLE_FLAGS_TYPE_SHIFT :: nat where "SAMPLE_FLAGS_TYPE_SHIFT = 5"

definition SAMPLE_FLAGS_TYPE_MASK :: "32 word" where
  "SAMPLE_FLAGS_TYPE_MASK = push_bit SAMPLE_FLAGS_TYPE_SHIFT 7"
definition SAMPLE_FLAGS_TYPE_NONE :: "32 word" where
  "SAMPLE_FLAGS_TYPE_NONE = push_bit SAMPLE_FLAGS_TYPE_SHIFT 0"
definition SAMPLE_FLAGS_TYPE_INTEREST :: "32 word" where
  "SAMPLE_FLAGS_TYPE_INTEREST = push_bit SAMPLE_FLAGS_TYPE_SHIFT 1"
definition SAMPLE_FLAGS_TYPE_NAVPOINT :: "32 word" where
  "SAMPLE_FLAGS_TYPE_NAVPOINT = push_bit SAMPLE_FLAGS_TYPE_SHIFT 2"
definition SAMPLE_FLAGS_TYPE_DANGER :: "32 word" where
  "SAMPLE_FLAGS_TYPE_DANGER = push_bit SAMPLE_FLAGS_TYPE_SHIFT 3"
definition SAMPLE_FLAGS_TYPE_ANIMAL :: "32 word" where
  "SAMPLE_FLAGS_TYPE_ANIMAL = push_bit SAMPLE_FLAGS_TYPE_SHIFT 4"
definition SAMPLE_FLAGS_TYPE_ISSUE :: "32 word" where
  "SAMPLE_FLAGS_TYPE_ISSUE = push_bit SAMPLE_FLAGS_TYPE_SHIFT 5"
definition SAMPLE_FLAGS_TYPE_INJURY :: "32 word" where
  "SAMPLE_FLAGS_TYPE_INJURY = push_bit SAMPLE_FLAGS_TYPE_SHIFT 6"

text \<open>
  Modelled from the spec: the header declares the masks and shifts only; no function of the
  sources packs or unpacks the word. The specification describes the two operations: bit 0
  is ``begin'', bit 1 is ``end'', bits 2 to 4 hold the severity and bits 5 to 7 the
  annotation type. They are written here with the constants of the header.
\<close>

datatype severity_t = Missing | State | Info | Warn | Alarm

datatype annotation_t = No_type | Interest | Navpoint | Danger | Animal | Issue | Injury

fun severity_flags :: "severity_t \<Rightarrow> 32 word" where
  "severity_flags Missing = SAMPLE_FLAGS_SEVERITY_MISSING"
| "severity_flags State = SAMPLE_FLAGS_SEVERITY_STATE"
| "severity_flags Info = SAMPLE_FLAGS_SEVERITY_INFO"
| "severity_flags Warn = SAMPLE_FLAGS_SEVERITY_WARN"
| "severity_flags Alarm = SAMPLE_FLAGS_SEVERITY_ALARM"

fun annotation_flags :: "annotation_t \<Rightarrow> 32 word" where
  "annotation_flags No_type = SAMPLE_FLAGS_TYPE_NONE"
| "annotation_flags Interest = SAMPLE_FLAGS_TYPE_INTEREST"
| "annotation_flags Navpoint = SAMPLE_FLAGS_TYPE_NAVPOINT"
| "annotation_flags Danger = SAMPLE_FLAGS_TYPE_DANGER"
| "annotation_flags Animal = SAMPLE_FLAGS_TYPE_ANIMAL"
| "annotation_flags Issue = SAMPLE_FLAGS_TYPE_ISSUE"
| "annotation_flags Injury = SAMPLE_FLAGS_TYPE_INJURY"

definition pack_event_flags :: "bool \<Rightarrow> bool \<Rightarrow> severity_t \<Rightarrow> annotation_t \<Rightarrow> 32 word" where
  "pack_event_flags b e sev ty =
     (if b then SAMPLE_FLAGS_BEGIN else SAMPLE_FLAGS_NONE)
       OR (if e then SAMPLE_FLAGS_END else SAMPLE_FLAGS_NONE)
       OR severity_flags sev OR annotation_flags ty"

definition severity_of :: "32 word \<Rightarrow> severity_t option" where
  "severity_of w =
     (let s = w AND SAMPLE_FLAGS_SEVERITY_MASK in
      if s = SAMPLE_FLAGS_SEVERITY_MISSING then Some Missing
      else if s = SAMPLE_FLAGS_SEVERITY_STATE then Some State
      else if s = SAMPLE_FLAGS_SEVERITY_INFO then Some Info
      else if s = SAMPLE_FLAGS_SEVERITY_WARN then Some Warn
      else if s = SAMPLE_FLAGS_SEVERITY_ALARM then Some Alarm
      else None)"

definition annotation_of :: "32 word \<Rightarrow> annotation_t option" where
  "annotation_of w =
     (let t = w AND SAMPLE_FLAGS_TYPE_MASK in
      if t = SAMPLE_FLAGS_TYPE_NONE then Some No_type
      else if t = SAMPLE_FLAGS_TYPE_INTEREST then Some Interest
      else if t = SAMPLE_FLAGS_TYPE_NAVPOINT then Some Navpoint
      else if t = SAMPLE_FLAGS_TYPE_DANGER then Some Danger
      else if t = SAMPLE_FLAGS_TYPE_ANIMAL then Some Animal
      else if t = SAMPLE_FLAGS_TYPE_ISSUE then Some Issue
      else if t = SAMPLE_FLAGS_TYPE_INJURY then Some Injury
      else None)"

definition unpack_event_flags ::
  "32 word \<Rightarrow> bool \<times> bool \<times> severity_t option \<times> annotation_t option" where
  "unpack_event_flags w =
     (w AND SAMPLE_FLAGS_BEGIN \<noteq> 0, w AND SAMPLE_FLAGS_END \<noteq> 0,
      severity_of w, annotation_of w)"

text \<open>The numeric reading of the two fields: the masked bits shifted down.\<close>

definition severity_number :: "32 word \<Rightarrow> nat" where
  "severity_number w =
     unat (drop_bit SAMPLE_FLAGS_SEVERITY_SHIFT (w AND SAMPLE_FLAGS_SEVERITY_MASK))"

definition annotation_number :: "32 word \<Rightarrow> nat" where
  "annotation_number w = unat (drop_bit SAMPLE_FLAGS_TYPE_SHIFT (w AND SAMPLE_FLAGS_TYPE_MASK))"

fun severity_index :: "severity_t \<Rightarrow> nat" where
  "severity_index Missing = 0"
| "severity_index State = 1"
| "severity_index Info = 2"
| "severity_index Warn = 3"
| "severity_index Alarm = 4"

fun annotation_index :: "annotation_t \<Rightarrow> nat" where
  "annotation_index No_type = 0"
| "annotation_index Interest = 1"
| "annotation_index Navpoint = 2"
| "annotation_index Danger = 3"
| "annotation_index Animal = 4"
| "annotation_index Issue = 5"
| "annotation_index Injury = 6"

section \<open>Notions of the specification\<close>

subsection \<open>Well-formed dive records\<close>

text \<open>
  A well-formed record starts with the header and ends with the footer, and the two markers
  occur nowhere else where the scan looks for them: no header starts at the positions
  \<open>1\<close> to \<open>length r - 5\<close> that the backward scan visits, and no footer starts at the
  positions \<open>10\<close> to \<open>length r - 3\<close> that the forward scan visits before the true footer.
  The shortest record has 12 bytes: header, two further bytes, timestamp, footer.
\<close>

definition wf_record :: "byte list \<Rightarrow> bool" where
  "wf_record r \<longleftrightarrow>
     12 \<le> length r \<and> memcmp_eq r 0 header \<and> memcmp_eq r (length r - 2) footer
     \<and> (\<forall>p \<in> {1 ..< length r - 4}. \<not> memcmp_eq r p header)
     \<and> (\<forall>q \<in> {10 ..< length r - 2}. \<not> memcmp_eq r q footer)"

text \<open>
  The record as the specification words it: a header of four zero bytes, the timestamp at
  offset 6, payload, and the footer as the last two bytes. The definition follows the words
  of the specification; unlike \<open>wf_record\<close> it says nothing about the bytes in between.
\<close>

definition plain_record :: "byte list \<Rightarrow> bool" where
  "plain_record r \<longleftrightarrow>
     12 \<le> length r \<and> memcmp_eq r 0 header \<and> memcmp_eq r (length r - 2) footer"

text \<open>
  A record whose start marker has no stop marker: at least the header and one byte more,
  no further header where the backward scan looks, and no footer from position \<open>10\<close> on.
\<close>

definition unterminated_record :: "byte list \<Rightarrow> bool" where
  "unterminated_record r \<longleftrightarrow>
     5 \<le> length r \<and> memcmp_eq r 0 header
     \<and> (\<forall>p \<in> {1 ..< length r - 4}. \<not> memcmp_eq r p header)
     \<and> (\<forall>q \<in> {10 ..< length r - 1}. \<not> memcmp_eq r q footer)"

definition record_timestamp :: "byte list \<Rightarrow> 32 word" where
  "record_timestamp r = array_uint32_le r 6"


text \<open>
  The invocations that the records \<open>recs\<close>, laid out one after the other from offset
  \<open>off\<close> on, are expected to cause, in the order of the offsets.
\<close>

fun dives_of :: "nat \<Rightarrow> byte list list \<Rightarrow> dive_view list" where
  "dives_of off [] = []"
| "dives_of off (r # rs) =
     \<lparr>dive_offset = off, dive_size = length r, fp_offset = off + 6, fp_size = 4\<rparr>
       # dives_of (off + length r) rs"

text \<open>The user data after the callback \<open>cb\<close> has been invoked on \<open>views\<close> in turn.\<close>

definition run_callback :: "'u dc_dive_callback_t \<Rightarrow> dive_view list \<Rightarrow> 'u \<Rightarrow> 'u" where
  "run_callback cb views u = foldl (\<lambda>u v. snd (cb v u)) u views"

definition always_continues :: "'u dc_dive_callback_t \<Rightarrow> bool" where
  "always_continues cb = (\<forall>v u. fst (cb v u) \<noteq> 0)"

text \<open>
  The cutoff test of the extraction loop, and the handles for which no cutoff is in effect:
  \<^verbatim>\<open>NULL\<close>, or a Sensus Pro device whose stored timestamp is 0.
\<close>

definition cutoff_hit :: "'p dc_device option \<Rightarrow> 32 word \<Rightarrow> bool" where
  "cutoff_hit device ts = (case device of None \<Rightarrow> False | Some d \<Rightarrow> ts \<le> timestamp d)"

definition no_cutoff :: "'p dc_device option \<Rightarrow> bool" where
  "no_cutoff abstract =
     (case abstract of
        None \<Rightarrow> True
      | Some d \<Rightarrow> backend d = Reefnet_sensuspro_device_backend \<and> timestamp d = 0)"

text \<open>A handle that is \<^verbatim>\<open>NULL\<close> or carries another backend table than \<open>tbl\<close>.\<close>

definition foreign_handle :: "device_backend_ref \<Rightarrow> 'p dc_device option \<Rightarrow> bool" where
  "foreign_handle tbl abstract =
     (case abstract of None \<Rightarrow> True | Some d \<Rightarrow> backend d \<noteq> tbl)"

subsection \<open>The example scenario\<close>

text \<open>
  The record of the scenario: header, six bytes, the timestamp as four little-endian bytes,
  padding, footer.
\<close>

definition uint32_le_bytes :: "32 word \<Rightarrow> byte list" where
  "uint32_le_bytes w = [ucast w, ucast (drop_bit 8 w), ucast (drop_bit 16 w), ucast (drop_bit 24 w)]"

definition scenario_record :: "byte list \<Rightarrow> 32 word \<Rightarrow> byte list \<Rightarrow> byte list" where
  "scenario_record six ts pad = header @ six @ uint32_le_bytes ts @ pad @ footer"

text \<open>
  A concrete instance: the last four of the six bytes repeat the timestamp, so that the
  position \<open>6\<close>, where the extraction reads it, holds it too.
\<close>

definition scenario_100 :: "byte list" where
  "scenario_100 = scenario_record [0x01, 0x01, 0x64, 0x00, 0x00, 0x00] 100 [0x01, 0x01]"

definition scenario_50 :: "byte list" where
  "scenario_50 = scenario_record [0x01, 0x01, 0x32, 0x00, 0x00, 0x00] 50 [0x01, 0x01]"

text \<open>The timestamps at the fingerprint positions of the invocations, in their order.\<close>

definition reported_timestamps :: "byte list \<Rightarrow> dive_view list \<Rightarrow> 32 word list" where
  "reported_timestamps data views = map (\<lambda>v. array_uint32_le data (fp_offset v)) views"

text \<open>The bytes of the dive that an invocation receives.\<close>

definition dive_bytes :: "byte list \<Rightarrow> dive_view \<Rightarrow> byte list" where
  "dive_bytes data v = take (dive_size v) (drop (dive_offset v) data)"

subsection \<open>Concrete inputs\<close>

text \<open>Three small records, with the timestamps 10, 20 and 30.\<close>

definition dive_10 :: "byte list" where
  "dive_10 = [0x00, 0x00, 0x00, 0x00, 0x01, 0x02, 0x0A, 0x00, 0x00, 0x00, 0x07, 0x08, 0xFF, 0xFF]"

definition dive_20 :: "byte list" where
  "dive_20 = [0x00, 0x00, 0x00, 0x00, 0x01, 0x02, 0x14, 0x00, 0x00, 0x00, 0x07, 0xFF, 0xFF]"

definition dive_30 :: "byte list" where
  "dive_30 = [0x00, 0x00, 0x00, 0x00, 0x01, 0x02, 0x1E, 0x00, 0x00, 0x00, 0xFF, 0xFF]"

text \<open>
  Three records that have header, timestamp, payload and footer, but hold a marker pattern
  inside: a payload of four zero bytes, a payload that starts with \<open>FF FF\<close>, and the
  timestamp 0.
\<close>

definition dive_zero_payload :: "byte list" where
  "dive_zero_payload =
     [0x00, 0x00, 0x00, 0x00, 0x0A, 0x00, 0x0A, 0x00, 0x00, 0x00,
      0x00, 0x00, 0x00, 0x00, 0xFF, 0xFF]"

definition dive_early_footer :: "byte list" where
  "dive_early_footer =
     [0x00, 0x00, 0x00, 0x00, 0x01, 0x02, 0x0A, 0x00, 0x00, 0x00,
      0xFF, 0xFF, 0x07, 0x08, 0xFF, 0xFF]"

definition dive_zero_timestamp :: "byte list" where
  "dive_zero_timestamp =
     [0x00, 0x00, 0x00, 0x00, 0x01, 0x02, 0x00, 0x00, 0x00, 0x00, 0x07, 0x08, 0xFF, 0xFF]"

text \<open>A start marker that no stop marker follows.\<close>

definition dive_open :: "byte list" where
  "dive_open = [0x00, 0x00, 0x00, 0x00, 0x01, 0x02, 0x05, 0x00, 0x00, 0x00, 0x07, 0x08, 0x09]"

text \<open>A callback that counts its invocations and always continues.\<close>

definition counting_callback :: "nat dc_dive_callback_t" where
  "counting_callback v u = (1, u + 1)"

text \<open>
  A transport that records the calls made on it: the state of the port is the list of
  calls. Every write returns \<open>wn\<close>, every read returns \<open>rn\<close> and delivers \<open>reply\<close>.
\<close>

datatype serial_call =
    Sleep nat | Set_rts int | Set_break int | Write "byte list" nat | Read nat | Close

definition recording_transport :: "int \<Rightarrow> int \<Rightarrow> byte list \<Rightarrow> serial_call list externals" where
  "recording_transport wn rn reply =
     \<lparr>serial_sleep = (\<lambda>p ms. p @ [Sleep ms]),
      serial_set_rts = (\<lambda>p level. p @ [Set_rts level]),
      serial_set_break = (\<lambda>p level. p @ [Set_break level]),
      serial_write = (\<lambda>p bytes n. (wn, p @ [Write bytes n])),
      serial_read = (\<lambda>p buf n. (rn, reply, p @ [Read n])),
      serial_close = (\<lambda>p. (0, p @ [Close])),
      checksum_crc_ccitt_uint16 = (\<lambda>bytes n. 0),
      dc_datetime_now = 0,
      dc_buffer_alloc = (\<lambda>n. True),
      REEFNET_SENSUSPRO_HANDSHAKE_SIZE = 10,
      REEFNET_SENSUSPRO_MEMORY_SIZE = 56320,
      suunto_common2_device_reset_maxdepth = (\<lambda>abstract. (DC_STATUS_SUCCESS, abstract))\<rparr>"

definition sample_device :: "device_backend_ref \<Rightarrow> bool \<Rightarrow> serial_call list dc_device" where
  "sample_device tbl c =
     \<lparr>backend = tbl, cancel = c, events = [], port = [], handshake = replicate 10 0,
      timestamp = 0, devtime = 0, systime = - 1\<rparr>"

text \<open>
  A command of seven bytes and a valid answer of eight bytes to it: echoed first byte,
  length field 4, three echoed parameter bytes, one byte of payload, checksum.
\<close>

definition sample_command :: "byte list" where
  "sample_command = [0x05, 0x00, 0x03, 0x00, 0x23, 0x01, 0x24]"

definition sample_answer :: "byte list" where
  "sample_answer = [0x05, 0x00, 0x04, 0x00, 0x23, 0x01, 0xAB, 0x88]"

section \<open>Properties of the extraction loop\<close>

text \<open>
  Reads inside a record \<open>r\<close> of the buffer \<open>a @ r @ rest\<close> see the bytes of \<open>r\<close> only.
\<close>

lemma memcmp_eq_append:
  "p + length pat \<le> length r \<Longrightarrow>
     memcmp_eq (a @ r @ rest) (length a + p) pat = memcmp_eq r p pat"
  by (simp add: memcmp_eq_def)

lemma array_uint32_le_append:
  "p + 4 \<le> length r \<Longrightarrow>
     array_uint32_le (a @ r @ rest) (length a + p) = array_uint32_le r p"
  by (simp add: array_uint32_le_def nth_append add.assoc)

text \<open>
  The backward scan passes positions without a header; the forward search passes positions
  without a footer and stops at the first footer, or fails when there is none.
\<close>

lemma scan_skip:
  "(\<forall>p. s \<le> p \<and> p < s + k \<longrightarrow> \<not> memcmp_eq data p header) \<Longrightarrow>
     extract_loop data dev cb prev (s + k) u tr = extract_loop data dev cb prev s u tr"
proof (induction k)
  case 0
  then show ?case by simp
next
  case (Suc k)
  have "\<not> memcmp_eq data (s + k) header" using Suc.prems by simp
  then have "extract_loop data dev cb prev (s + Suc k) u tr
      = extract_loop data dev cb prev (s + k) u tr"
    by (subst extract_loop.simps) simp
  also have "\<dots> = extract_loop data dev cb prev s u tr"
    using Suc.prems by (intro Suc.IH) simp
  finally show ?case .
qed

lemma find_footer_skip:
  "(\<forall>q. off \<le> q \<and> q < off + k \<longrightarrow> \<not> memcmp_eq data q footer) \<Longrightarrow>
   memcmp_eq data (off + k) footer \<Longrightarrow> off + k + 2 \<le> previous \<Longrightarrow>
     find_footer data previous off = Some (off + k)"
proof (induction k arbitrary: off)
  case 0
  then show ?case by (subst find_footer.simps) simp
next
  case (Suc k)
  have "\<not> memcmp_eq data off footer" using Suc.prems(1) by simp
  moreover have "off + 2 \<le> previous" using Suc.prems(3) by simp
  ultimately have "find_footer data previous off = find_footer data previous (off + 1)"
    by (subst find_footer.simps) simp
  also have "\<dots> = Some (off + 1 + k)"
    using Suc.prems by (intro Suc.IH) auto
  finally show ?case by simp
qed

lemma find_footer_None:
  "(\<forall>q. off \<le> q \<and> q + 2 \<le> previous \<longrightarrow> \<not> memcmp_eq data q footer) \<Longrightarrow>
     find_footer data previous off = None"
proof (induction data previous off rule: find_footer.induct)
  case (1 data previous offset)
  show ?case
  proof (cases "offset + 2 \<le> previous")
    case True
    then have nf: "\<not> memcmp_eq data offset footer" using "1.prems" by simp
    have "find_footer data previous (offset + 1) = None"
      using True nf "1.prems" by (intro "1.IH") auto
    then show ?thesis using True nf by (subst find_footer.simps) simp
  next
    case False
    then show ?thesis by (subst find_footer.simps) simp
  qed
qed

text \<open>
  One well-formed record below \<open>previous\<close>: the scan finds its start marker and its
  footer, and then tests the cutoff and invokes the callback.
\<close>

lemma extract_one:
  assumes wf: "wf_record r"
  shows "extract_loop (a @ r @ rest) dev callback (length a + length r) (length a + length r - 4) u tr =
     (let view = \<lparr>dive_offset = length a, dive_size = length r,
                  fp_offset = length a + 6, fp_size = 4\<rparr> in
      if cutoff_hit dev (record_timestamp r) then (DC_STATUS_SUCCESS, tr, u)
      else
        (case callback of
           None \<Rightarrow> extract_loop (a @ r @ rest) dev callback (length a) (length a - 4) u tr
         | Some cb \<Rightarrow>
             (case cb view u of
                (rc, u') \<Rightarrow>
                  if rc = 0 then (DC_STATUS_SUCCESS, tr @ [view], u')
                  else extract_loop (a @ r @ rest) dev callback (length a) (length a - 4) u'
                         (tr @ [view]))))"
proof -
  let ?data = "a @ r @ rest"
  let ?s = "length a"
  let ?L = "length r"
  have len: "12 \<le> ?L" using wf by (simp add: wf_record_def)
  have hd: "memcmp_eq ?data ?s header"
    using wf len memcmp_eq_append [of 0 header r a rest]
    by (simp add: wf_record_def header_def)
  have nohd: "\<forall>p. Suc ?s \<le> p \<and> p < Suc ?s + (?L - 5) \<longrightarrow> \<not> memcmp_eq ?data p header"
  proof (intro allI impI)
    fix p assume p: "Suc ?s \<le> p \<and> p < Suc ?s + (?L - 5)"
    then have "p - ?s \<in> {1 ..< ?L - 4}" using len by auto
    then have "\<not> memcmp_eq r (p - ?s) header" using wf by (simp add: wf_record_def)
    moreover have "p - ?s + length header \<le> ?L"
      using p len unfolding header_def by (simp del: One_nat_def) arith
    then have "memcmp_eq ?data (?s + (p - ?s)) header = memcmp_eq r (p - ?s) header"
      by (rule memcmp_eq_append)
    ultimately show "\<not> memcmp_eq ?data p header" using p by simp
  qed
  have scan: "extract_loop ?data dev callback (?s + ?L) (?s + ?L - 4) u tr
      = extract_loop ?data dev callback (?s + ?L) (Suc ?s) u tr"
  proof -
    have "?s + ?L - 4 = Suc ?s + (?L - 5)" using len by simp
    then show ?thesis using scan_skip [OF nohd] by simp
  qed
  define off where "off = ?s + 10 + (?L - 12)"
  have noft: "\<forall>q. ?s + 10 \<le> q \<and> q < ?s + 10 + (?L - 12) \<longrightarrow> \<not> memcmp_eq ?data q footer"
  proof (intro allI impI)
    fix q assume q: "?s + 10 \<le> q \<and> q < ?s + 10 + (?L - 12)"
    then have "q - ?s \<in> {10 ..< ?L - 2}" using len by auto
    then have "\<not> memcmp_eq r (q - ?s) footer" using wf by (simp add: wf_record_def)
    moreover have "q - ?s + length footer \<le> ?L"
      using q len unfolding footer_def by (simp del: One_nat_def) arith
    then have "memcmp_eq ?data (?s + (q - ?s)) footer = memcmp_eq r (q - ?s) footer"
      by (rule memcmp_eq_append)
    ultimately show "\<not> memcmp_eq ?data q footer" using q by simp
  qed
  have ft: "memcmp_eq ?data (?s + 10 + (?L - 12)) footer"
  proof -
    have "memcmp_eq ?data (?s + (?L - 2)) footer = memcmp_eq r (?L - 2) footer"
      using len by (intro memcmp_eq_append) (simp add: footer_def)
    moreover have "?s + 10 + (?L - 12) = ?s + (?L - 2)" using len by simp
    ultimately show ?thesis using wf by (simp add: wf_record_def)
  qed
  have ff: "find_footer ?data (?s + ?L) (?s + 10) = Some off"
    unfolding off_def using len by (intro find_footer_skip [OF noft ft]) simp
  have ts: "array_uint32_le ?data (?s + 6) = record_timestamp r"
    unfolding record_timestamp_def using len by (intro array_uint32_le_append) simp
  have sz: "Suc (Suc off) - ?s = ?L" unfolding off_def using len by simp
  have m4: "\<not> 4 \<le> ?s \<Longrightarrow> ?s - 4 = 0" by simp
  show ?thesis
    unfolding scan
    by (subst extract_loop.simps)
       (simp add: hd ff ts sz m4 cutoff_hit_def Let_def split: option.split prod.split)
qed

lemma dives_of_append:
  "dives_of off (xs @ ys) = dives_of off xs @ dives_of (off + length (concat xs)) ys"
  by (induction xs arbitrary: off) (simp_all add: add.assoc)

text \<open>
  A run of well-formed records that the cutoff does not stop, with a callback that always
  continues: the loop consumes them all, newest first. The proof is by induction on the
  run, taken from its end.
\<close>

lemma extract_suffix:
  assumes "\<forall>r \<in> set post. wf_record r \<and> \<not> cutoff_hit dev (record_timestamp r)"
    and "\<forall>v u. fst (cb v u) \<noteq> 0"
  shows "extract_loop (a @ concat post @ rest) dev (Some cb)
           (length a + length (concat post)) (length a + length (concat post) - 4) u tr =
         extract_loop (a @ concat post @ rest) dev (Some cb) (length a) (length a - 4)
           (run_callback cb (rev (dives_of (length a) post)) u)
           (tr @ rev (dives_of (length a) post))"
  using assms(1)
proof (induction post arbitrary: rest u tr rule: rev_induct)
  case Nil
  then show ?case by (simp add: run_callback_def)
next
  case (snoc r post)
  let ?a' = "a @ concat post"
  let ?view = "\<lparr>dive_offset = length ?a', dive_size = length r,
                  fp_offset = length ?a' + 6, fp_size = 4\<rparr>"
  have wf: "wf_record r" and nc: "\<not> cutoff_hit dev (record_timestamp r)"
    using snoc.prems by simp_all
  have go: "fst (cb ?view u) \<noteq> 0" using assms(2) by blast
  have "extract_loop (?a' @ r @ rest) dev (Some cb) (length ?a' + length r)
            (length ?a' + length r - 4) u tr
        = extract_loop (?a' @ r @ rest) dev (Some cb) (length ?a') (length ?a' - 4)
            (snd (cb ?view u)) (tr @ [?view])"
    using go nc by (subst extract_one [OF wf]) (cases "cb ?view u", simp add: Let_def)
  also have "\<dots> = extract_loop (a @ concat post @ (r @ rest)) dev (Some cb) (length a)
            (length a - 4)
            (run_callback cb (rev (dives_of (length a) post)) (snd (cb ?view u)))
            ((tr @ [?view]) @ rev (dives_of (length a) post))"
    using snoc.prems snoc.IH [of "r @ rest" "snd (cb ?view u)" "tr @ [?view]"] by simp
  finally show ?case
    by (simp add: dives_of_append run_callback_def add.assoc)
qed

text \<open>A well-formed record has a timestamp other than 0.\<close>

lemma take4_drop:
  "p + 4 \<le> length xs \<Longrightarrow> take 4 (drop p xs) = [xs ! p, xs ! (p + 1), xs ! (p + 2), xs ! (p + 3)]"
  by (auto simp: list_eq_iff_nth_eq nth_Cons' less_Suc_eq numeral_eq_Suc)

lemma unat_byte_bound: "unat (b :: byte) < 256"
  using unsigned_less [of b, where 'a = nat] by simp

lemma word32_of_nat_eq_0:
  "n < 2 ^ 32 \<Longrightarrow> (word_of_nat n :: 32 word) = 0 \<longleftrightarrow> n = 0"
  by (auto simp: word_of_nat_eq_0_iff dest: dvd_imp_le)

lemma array_uint32_le_eq_0:
  "array_uint32_le xs p = 0 \<longleftrightarrow>
     xs ! p = 0 \<and> xs ! (p + 1) = 0 \<and> xs ! (p + 2) = 0 \<and> xs ! (p + 3) = 0"
proof -
  define n where "n = unat (xs ! p) + 2 ^ 8 * unat (xs ! (p + 1))
       + 2 ^ 16 * unat (xs ! (p + 2)) + 2 ^ 24 * unat (xs ! (p + 3))"
  have "n < 2 ^ 32"
    using unat_byte_bound [of "xs ! p"] unat_byte_bound [of "xs ! (p + 1)"]
      unat_byte_bound [of "xs ! (p + 2)"] unat_byte_bound [of "xs ! (p + 3)"]
    unfolding n_def by simp
  then have "array_uint32_le xs p = 0 \<longleftrightarrow> n = 0"
    unfolding array_uint32_le_def n_def [symmetric] by (rule word32_of_nat_eq_0)
  also have "\<dots> \<longleftrightarrow> xs ! p = 0 \<and> xs ! (p + 1) = 0 \<and> xs ! (p + 2) = 0 \<and> xs ! (p + 3) = 0"
    unfolding n_def by (simp add: unat_eq_0)
  finally show ?thesis .
qed

lemma wf_record_timestamp_nonzero:
  assumes "wf_record r"
  shows "record_timestamp r \<noteq> 0"
proof -
  have len: "12 \<le> length r" using assms by (simp add: wf_record_def)
  then have "6 \<in> {1 ..< length r - 4}" by auto
  then have "\<not> memcmp_eq r 6 header" using assms by (simp add: wf_record_def)
  moreover have "length header = 4" by (simp add: header_def)
  ultimately have "take 4 (drop 6 r) \<noteq> header" by (simp add: memcmp_eq_def)
  moreover have "take 4 (drop 6 r) = [r ! 6, r ! (6 + 1), r ! (6 + 2), r ! (6 + 3)]"
    using len by (intro take4_drop) simp
  ultimately have "[r ! 6, r ! (6 + 1), r ! (6 + 2), r ! (6 + 3)] \<noteq> [0, 0, 0, 0]"
    unfolding header_def by simp
  then show ?thesis
    unfolding record_timestamp_def array_uint32_le_eq_0 by auto
qed



lemma length_dives_of: "length (dives_of off recs) = length recs"
  by (induction recs arbitrary: off) simp_all

lemma extract_loop_done: "extract_loop data dev cb previous 0 u tr = (DC_STATUS_SUCCESS, tr, u)"
  by (subst extract_loop.simps) simp

text \<open>A buffer that holds well-formed records only, none of them stopped by the cutoff.\<close>

lemma extract_dives_all:
  assumes "\<forall>r \<in> set recs. wf_record r \<and> \<not> cutoff_hit abstract (record_timestamp r)"
    and "abstract = None \<or> device_is_reefnet_sensuspro abstract"
    and "\<forall>v u. fst (cb v u) \<noteq> 0"
  shows "reefnet_sensuspro_extract_dives abstract (concat recs) (Some cb) u =
    (DC_STATUS_SUCCESS, rev (dives_of 0 recs), run_callback cb (rev (dives_of 0 recs)) u)"
proof -
  have "extract_loop ([] @ concat recs @ []) abstract (Some cb)
          (length ([] :: byte list) + length (concat recs))
          (length ([] :: byte list) + length (concat recs) - 4) u [] =
        extract_loop ([] @ concat recs @ []) abstract (Some cb) (length ([] :: byte list))
          (length ([] :: byte list) - 4)
          (run_callback cb (rev (dives_of (length ([] :: byte list)) recs)) u)
          ([] @ rev (dives_of (length ([] :: byte list)) recs))"
    by (rule extract_suffix [OF assms(1) assms(3)])
  then have "extract_loop (concat recs) abstract (Some cb) (length (concat recs))
          (length (concat recs) - 4) u [] =
       (DC_STATUS_SUCCESS, rev (dives_of 0 recs), run_callback cb (rev (dives_of 0 recs)) u)"
    by (simp add: extract_loop_done)
  moreover have "(if 4 \<le> length (concat recs) then length (concat recs) - 4 else 0)
      = length (concat recs) - 4" by simp
  ultimately show ?thesis
    using assms(2) unfolding reefnet_sensuspro_extract_dives_def by auto
qed

lemma no_cutoff_not_hit:
  "no_cutoff abstract \<Longrightarrow> wf_record r \<Longrightarrow> \<not> cutoff_hit abstract (record_timestamp r)"
  using wf_record_timestamp_nonzero [of r]
  by (auto simp: no_cutoff_def cutoff_hit_def split: option.splits)

lemma no_cutoff_guard:
  "no_cutoff abstract \<Longrightarrow> abstract = None \<or> device_is_reefnet_sensuspro abstract"
  by (auto simp: no_cutoff_def device_is_reefnet_sensuspro_def split: option.splits)

text \<open>The loop returns success or the data-format error, nothing else.\<close>

lemma extract_loop_status:
  "fst (extract_loop data device callback previous current u tr)
     \<in> {DC_STATUS_SUCCESS, DC_STATUS_DATAFORMAT}"
proof (induction current arbitrary: previous u tr device callback rule: less_induct)
  case (less current)
  let ?S = "{DC_STATUS_SUCCESS, DC_STATUS_DATAFORMAT}"
  note IH = less.IH
  show ?case
  proof (cases "0 < current")
    case False
    then show ?thesis by (subst extract_loop.simps) simp
  next
    case True
    then have lt: "current - 1 < current" "(if 4 \<le> current - 1 then current - 1 - 4 else 0) < current"
      by simp_all
    show ?thesis
    proof (cases "memcmp_eq data (current - 1) header")
      case False
      then show ?thesis
        using True IH [OF lt(1)] by (subst extract_loop.simps) (simp add: Let_def)
    next
      case hd: True
      show ?thesis
      proof (cases "find_footer data previous (current - 1 + 10)")
        case None
        then show ?thesis using True hd by (subst extract_loop.simps) (simp add: Let_def)
      next
        case (Some offset)
      define c where "c = current - 1"
      define nxt where "nxt = (if 4 \<le> c then c - 4 else 0)"
      define view where "view = \<lparr>dive_offset = c, dive_size = offset + 2 - c,
                             fp_offset = c + 6, fp_size = 4\<rparr>"
      have nxt_lt: "nxt < current" using True by (simp add: nxt_def c_def)
      have step: "extract_loop data device callback previous current u tr =
        (if (case device of None \<Rightarrow> False
             | Some d \<Rightarrow> array_uint32_le data (c + 6) \<le> timestamp d)
         then (DC_STATUS_SUCCESS, tr, u)
         else
           (case callback of
              None \<Rightarrow> extract_loop data device callback c nxt u tr
            | Some cb \<Rightarrow>
                (case cb view u of
                   (rc, u') \<Rightarrow>
                     if rc = 0 then (DC_STATUS_SUCCESS, tr @ [view], u')
                     else extract_loop data device callback c nxt u' (tr @ [view]))))"
        unfolding c_def nxt_def view_def
        by (subst extract_loop.simps)
           (simp only: True hd Some Let_def if_True option.case)
      show ?thesis
        unfolding step
        by (simp add: IH [OF nxt_lt] insertI1 del: insert_iff split: option.split prod.split)
    qed
  qed
qed
qed

text \<open>A start marker without a footer below \<open>previous\<close>.\<close>

lemma extract_unterminated:
  assumes bad: "unterminated_record r"
  shows "extract_loop (a @ r @ rest) dev callback (length a + length r) (length a + length r - 4) u tr
     = (DC_STATUS_DATAFORMAT, tr, u)"
proof -
  let ?data = "a @ r @ rest"
  let ?s = "length a"
  let ?L = "length r"
  have len: "5 \<le> ?L" using bad by (simp add: unterminated_record_def)
  have hd: "memcmp_eq ?data ?s header"
    using bad len memcmp_eq_append [of 0 header r a rest]
    by (simp add: unterminated_record_def header_def)
  have nohd: "\<forall>p. Suc ?s \<le> p \<and> p < Suc ?s + (?L - 5) \<longrightarrow> \<not> memcmp_eq ?data p header"
  proof (intro allI impI)
    fix p assume p: "Suc ?s \<le> p \<and> p < Suc ?s + (?L - 5)"
    then have "p - ?s \<in> {1 ..< ?L - 4}" using len by auto
    then have "\<not> memcmp_eq r (p - ?s) header" using bad by (simp add: unterminated_record_def)
    moreover have "p - ?s + length header \<le> ?L"
      using p len unfolding header_def by (simp del: One_nat_def) arith
    then have "memcmp_eq ?data (?s + (p - ?s)) header = memcmp_eq r (p - ?s) header"
      by (rule memcmp_eq_append)
    ultimately show "\<not> memcmp_eq ?data p header" using p by simp
  qed
  have scan: "extract_loop ?data dev callback (?s + ?L) (?s + ?L - 4) u tr
      = extract_loop ?data dev callback (?s + ?L) (Suc ?s) u tr"
  proof -
    have "?s + ?L - 4 = Suc ?s + (?L - 5)" using len by simp
    then show ?thesis using scan_skip [OF nohd] by simp
  qed
  have noft: "\<forall>q. ?s + 10 \<le> q \<and> q + 2 \<le> ?s + ?L \<longrightarrow> \<not> memcmp_eq ?data q footer"
  proof (intro allI impI)
    fix q assume q: "?s + 10 \<le> q \<and> q + 2 \<le> ?s + ?L"
    then have "q - ?s \<in> {10 ..< ?L - 1}" by auto
    then have "\<not> memcmp_eq r (q - ?s) footer" using bad by (simp add: unterminated_record_def)
    moreover have "q - ?s + length footer \<le> ?L"
      using q unfolding footer_def by (simp del: One_nat_def) arith
    then have "memcmp_eq ?data (?s + (q - ?s)) footer = memcmp_eq r (q - ?s) footer"
      by (rule memcmp_eq_append)
    ultimately show "\<not> memcmp_eq ?data q footer" using q by simp
  qed
  have ff: "find_footer ?data (?s + ?L) (?s + 10) = None"
    by (rule find_footer_None [OF noft])
  show ?thesis
    unfolding scan
    by (subst extract_loop.simps) (simp add: hd ff Let_def)
qed

lemma dives_of_offset: "v \<in> set (dives_of off recs) \<Longrightarrow> off \<le> dive_offset v"
proof (induction recs arbitrary: off)
  case Nil
  then show ?case by simp
next
  case (Cons r recs)
  then show ?case by (auto dest: Cons.IH)
qed



text \<open>A buffer in which the scan meets the record \<open>r\<close> without footer.\<close>

lemma extract_dives_broken:
  assumes bad: "unterminated_record r"
    and post: "\<forall>r \<in> set post. wf_record r \<and> \<not> cutoff_hit abstract (record_timestamp r)"
    and dev: "abstract = None \<or> device_is_reefnet_sensuspro abstract"
    and ac: "\<forall>v u. fst (cb v u) \<noteq> 0"
  shows "reefnet_sensuspro_extract_dives abstract (a @ r @ concat post) (Some cb) u =
    (DC_STATUS_DATAFORMAT, rev (dives_of (length a + length r) post),
     run_callback cb (rev (dives_of (length a + length r) post)) u)"
proof -
  let ?data = "a @ r @ concat post"
  let ?vs = "rev (dives_of (length a + length r) post)"
  have "extract_loop ((a @ r) @ concat post @ []) abstract (Some cb)
          (length (a @ r) + length (concat post)) (length (a @ r) + length (concat post) - 4) u [] =
        extract_loop ((a @ r) @ concat post @ []) abstract (Some cb) (length (a @ r))
          (length (a @ r) - 4)
          (run_callback cb (rev (dives_of (length (a @ r)) post)) u)
          ([] @ rev (dives_of (length (a @ r)) post))"
    by (rule extract_suffix [OF post ac])
  then have "extract_loop ?data abstract (Some cb) (length ?data) (length ?data - 4) u [] =
        extract_loop ?data abstract (Some cb) (length a + length r) (length a + length r - 4)
          (run_callback cb ?vs u) ?vs"
    by (simp add: add.assoc)
  also have "\<dots> = (DC_STATUS_DATAFORMAT, ?vs, run_callback cb ?vs u)"
    by (rule extract_unterminated [OF bad])
  finally have "extract_loop ?data abstract (Some cb) (length ?data) (length ?data - 4) u [] =
      (DC_STATUS_DATAFORMAT, ?vs, run_callback cb ?vs u)" .
  moreover have "(if 4 \<le> length ?data then length ?data - 4 else 0) = length ?data - 4" by simp
  ultimately show ?thesis
    using dev unfolding reefnet_sensuspro_extract_dives_def by auto
qed

subsection \<open>The concrete records\<close>

text \<open>The facts that evaluate the extraction on a concrete buffer.\<close>

lemmas extract_eval =
  reefnet_sensuspro_extract_dives_def extract_loop.simps find_footer.simps memcmp_eq_def
  header_def footer_def Let_def counting_callback_def array_uint32_le_def

lemma ball_upt_list: "(\<forall>p \<in> {m ..< n}. P p) \<longleftrightarrow> list_all P [m ..< n]"
  by (simp add: list_all_iff)

lemma wf_dive_10: "wf_record dive_10"
  unfolding wf_record_def ball_upt_list
  by (simp add: dive_10_def memcmp_eq_def header_def footer_def upt_rec)

lemma wf_dive_20: "wf_record dive_20"
  unfolding wf_record_def ball_upt_list
  by (simp add: dive_20_def memcmp_eq_def header_def footer_def upt_rec)

lemma wf_dive_30: "wf_record dive_30"
  unfolding wf_record_def ball_upt_list
  by (simp add: dive_30_def memcmp_eq_def header_def footer_def upt_rec)

lemma unterminated_dive_open: "unterminated_record dive_open"
  unfolding unterminated_record_def ball_upt_list
  by (simp add: dive_open_def memcmp_eq_def header_def footer_def upt_rec)

lemma scenario_100_bytes:
  "scenario_100 = [0, 0, 0, 0, 1, 1, 0x64, 0, 0, 0, 0x64, 0, 0, 0, 1, 1, 0xFF, 0xFF]"
  by (simp add: scenario_100_def scenario_record_def uint32_le_bytes_def header_def footer_def)

lemma scenario_50_bytes:
  "scenario_50 = [0, 0, 0, 0, 1, 1, 0x32, 0, 0, 0, 0x32, 0, 0, 0, 1, 1, 0xFF, 0xFF]"
  by (simp add: scenario_50_def scenario_record_def uint32_le_bytes_def header_def footer_def)

lemma wf_scenario_100: "wf_record scenario_100"
  unfolding wf_record_def ball_upt_list scenario_100_bytes
  by (simp add: memcmp_eq_def header_def footer_def upt_rec)

lemma wf_scenario_50: "wf_record scenario_50"
  unfolding wf_record_def ball_upt_list scenario_50_bytes
  by (simp add: memcmp_eq_def header_def footer_def upt_rec)



section \<open>Extraction of all records\<close>

text \<open>
  Records that have header, timestamp, payload and footer are not enough. On a record whose
  payload is four zero bytes the scan takes the payload for a start marker and returns the
  data-format error without any invocation; on a record whose payload starts with
  \<open>FF FF\<close> it reports 12 bytes instead of 16.
\<close>

theorem plain_records_counterexample:
  "plain_record dive_zero_payload
   \<and> plain_record dive_early_footer
   \<and> sorted_wrt (<) (map record_timestamp [dive_zero_payload])
   \<and> sorted_wrt (<) (map record_timestamp [dive_early_footer])
   \<and> no_cutoff (None :: unit dc_device option)
   \<and> always_continues counting_callback
   \<and> reefnet_sensuspro_extract_dives (None :: unit dc_device option)
        (concat [dive_zero_payload]) (Some counting_callback) 0
      = (DC_STATUS_DATAFORMAT, [], 0)
   \<and> reefnet_sensuspro_extract_dives (None :: unit dc_device option)
        (concat [dive_early_footer]) (Some counting_callback) 0
      = (DC_STATUS_SUCCESS,
         [\<lparr>dive_offset = 0, dive_size = 12, fp_offset = 6, fp_size = 4\<rparr>], 1)
   \<and> rev (dives_of 0 [dive_early_footer])
      = [\<lparr>dive_offset = 0, dive_size = 16, fp_offset = 6, fp_size = 4\<rparr>]"
proof -
  have "plain_record dive_zero_payload" "plain_record dive_early_footer"
    by (simp_all add: plain_record_def dive_zero_payload_def dive_early_footer_def
        memcmp_eq_def header_def footer_def)
  moreover have "no_cutoff (None :: unit dc_device option)" by (simp add: no_cutoff_def)
  moreover have "always_continues counting_callback"
    by (simp add: always_continues_def counting_callback_def)
  moreover have "reefnet_sensuspro_extract_dives (None :: unit dc_device option)
        (concat [dive_zero_payload]) (Some counting_callback) 0
      = (DC_STATUS_DATAFORMAT, [], 0)"
    by (simp add: dive_zero_payload_def extract_eval)
  moreover have "reefnet_sensuspro_extract_dives (None :: unit dc_device option)
        (concat [dive_early_footer]) (Some counting_callback) 0
      = (DC_STATUS_SUCCESS,
         [\<lparr>dive_offset = 0, dive_size = 12, fp_offset = 6, fp_size = 4\<rparr>], 1)"
    by (simp add: dive_early_footer_def extract_eval)
  moreover have "rev (dives_of 0 [dive_early_footer])
      = [\<lparr>dive_offset = 0, dive_size = 16, fp_offset = 6, fp_size = 4\<rparr>]"
    by (simp add: dive_early_footer_def)
  ultimately show ?thesis by simp
qed

text \<open>
  Claim C1, amended. Let the buffer consist of \<open>N\<close> well-formed dive records, laid out one
  after the other from the oldest to the newest, where well-formed means header, timestamp,
  payload and footer, and in addition that the header pattern occurs at no other position
  of the record that the backward scan visits and the footer pattern at no position from
  offset 10 on before the footer (\<open>wf_record\<close>). With no fingerprint cutoff in effect and
  a callback that always continues, the extraction returns success and invokes the callback
  exactly \<open>N\<close> times, newest record (highest offset) first; each invocation receives the
  byte range of its record, from the start marker to the end of the footer, and the four
  bytes at offset 6 of the record as the fingerprint. The order of the timestamps plays no
  part when no cutoff is in effect, so the theorem does not ask for it.
\<close>

theorem extract_dives_newest_first:
  assumes "\<forall>r \<in> set recs. wf_record r"
    and "length (concat recs) + 7 < 2 ^ 32"
    and "no_cutoff abstract"
    and "always_continues cb"
  shows "reefnet_sensuspro_extract_dives abstract (concat recs) (Some cb) u =
    (DC_STATUS_SUCCESS, rev (dives_of 0 recs), run_callback cb (rev (dives_of 0 recs)) u)
    \<and> length (rev (dives_of 0 recs)) = length recs"
proof -
  have "\<forall>r \<in> set recs. wf_record r \<and> \<not> cutoff_hit abstract (record_timestamp r)"
    using assms(1,3) no_cutoff_not_hit by blast
  then show ?thesis
    using extract_dives_all [of recs abstract cb u] no_cutoff_guard [OF assms(3)] assms(4)
    by (simp add: always_continues_def length_dives_of)
qed

theorem extract_dives_newest_first_witness:
  "wf_record dive_10 \<and> wf_record dive_20 \<and> wf_record dive_30
   \<and> length (concat [dive_10, dive_20, dive_30]) + 7 < (2 :: nat) ^ 32
   \<and> no_cutoff (None :: unit dc_device option)
   \<and> always_continues counting_callback
   \<and> reefnet_sensuspro_extract_dives (None :: unit dc_device option)
        (concat [dive_10, dive_20, dive_30]) (Some counting_callback) 0 =
      (DC_STATUS_SUCCESS,
       [\<lparr>dive_offset = 27, dive_size = 12, fp_offset = 33, fp_size = 4\<rparr>,
        \<lparr>dive_offset = 14, dive_size = 13, fp_offset = 20, fp_size = 4\<rparr>,
        \<lparr>dive_offset = 0, dive_size = 14, fp_offset = 6, fp_size = 4\<rparr>], 3)"
proof -
  have wf: "\<forall>r \<in> set [dive_10, dive_20, dive_30]. wf_record r"
    using wf_dive_10 wf_dive_20 wf_dive_30 by simp
  have len: "length (concat [dive_10, dive_20, dive_30]) + 7 < (2 :: nat) ^ 32"
    by (simp add: dive_10_def dive_20_def dive_30_def)
  have nc: "no_cutoff (None :: unit dc_device option)" by (simp add: no_cutoff_def)
  have ac: "always_continues counting_callback"
    by (simp add: always_continues_def counting_callback_def)
  have "reefnet_sensuspro_extract_dives (None :: unit dc_device option)
        (concat [dive_10, dive_20, dive_30]) (Some counting_callback) 0 =
      (DC_STATUS_SUCCESS,
       [\<lparr>dive_offset = 27, dive_size = 12, fp_offset = 33, fp_size = 4\<rparr>,
        \<lparr>dive_offset = 14, dive_size = 13, fp_offset = 20, fp_size = 4\<rparr>,
        \<lparr>dive_offset = 0, dive_size = 14, fp_offset = 6, fp_size = 4\<rparr>], 3)"
    using extract_dives_newest_first [OF wf len nc ac, of "0 :: nat"]
    by (simp add: run_callback_def counting_callback_def dive_10_def dive_20_def dive_30_def)
  then show ?thesis
    using wf_dive_10 wf_dive_20 wf_dive_30 len nc ac by simp
qed


lemma set_fingerprint_0:
  "device_is_reefnet_sensuspro (Some d) \<Longrightarrow>
     reefnet_sensuspro_device_set_fingerprint (Some d) fp 0
       = (DC_STATUS_SUCCESS, Some (d\<lparr>timestamp := 0\<rparr>))"
  by (simp add: reefnet_sensuspro_device_set_fingerprint_def)

lemma is_reefnet_SomeE:
  assumes "device_is_reefnet_sensuspro abstract"
  obtains d where "abstract = Some d" "backend d = Reefnet_sensuspro_device_backend"
  using assms by (cases abstract) (auto simp: device_is_reefnet_sensuspro_def)

section \<open>Extraction with a fingerprint\<close>



text \<open>
  A record with the timestamp 0 is not extracted after \<^verbatim>\<open>set_fingerprint\<close> with size 0:
  its four timestamp bytes are a start marker, which the scan meets first and for which it
  finds no footer, so the result is the data-format error and no invocation.
\<close>

theorem empty_fingerprint_counterexample:
  "plain_record dive_zero_timestamp
   \<and> device_is_reefnet_sensuspro
        (Some ((sample_device Reefnet_sensuspro_device_backend False)\<lparr>timestamp := 20\<rparr>))
   \<and> always_continues counting_callback
   \<and> fst (reefnet_sensuspro_device_set_fingerprint
        (Some ((sample_device Reefnet_sensuspro_device_backend False)\<lparr>timestamp := 20\<rparr>))
        [] 0) = DC_STATUS_SUCCESS
   \<and> reefnet_sensuspro_extract_dives
        (snd (reefnet_sensuspro_device_set_fingerprint
           (Some ((sample_device Reefnet_sensuspro_device_backend False)\<lparr>timestamp := 20\<rparr>))
           [] 0))
        (concat [dive_zero_timestamp]) (Some counting_callback) 0
      = (DC_STATUS_DATAFORMAT, [], 0)"
proof -
  have "plain_record dive_zero_timestamp"
    by (simp add: plain_record_def dive_zero_timestamp_def memcmp_eq_def header_def footer_def)
  moreover have "always_continues counting_callback"
    by (simp add: always_continues_def counting_callback_def)
  moreover have "reefnet_sensuspro_extract_dives
        (snd (reefnet_sensuspro_device_set_fingerprint
           (Some ((sample_device Reefnet_sensuspro_device_backend False)\<lparr>timestamp := 20\<rparr>))
           [] 0))
        (concat [dive_zero_timestamp]) (Some counting_callback) 0
      = (DC_STATUS_DATAFORMAT, [], 0)"
    by (simp add: reefnet_sensuspro_device_set_fingerprint_def device_is_reefnet_sensuspro_def
        sample_device_def dive_zero_timestamp_def extract_eval)
  ultimately show ?thesis
    by (simp add: reefnet_sensuspro_device_set_fingerprint_def device_is_reefnet_sensuspro_def
        sample_device_def)
qed

text \<open>
  Claim C5, amended. After \<^verbatim>\<open>set_fingerprint\<close> with size 0 on a Sensus Pro device,
  whatever timestamp it held before, the extraction of a buffer of well-formed records, in
  which the marker patterns occur at the record boundaries only (\<open>wf_record\<close>, which rules
  out the timestamp 0), invokes the callback for every record: the cutoff test excludes
  none.
\<close>

theorem extract_dives_empty_fingerprint:
  assumes wf: "\<forall>r \<in> set recs. wf_record r"
    and len: "length (concat recs) + 7 < 2 ^ 32"
    and dev: "device_is_reefnet_sensuspro abstract"
    and ac: "always_continues cb"
  shows "fst (reefnet_sensuspro_device_set_fingerprint abstract fp 0) = DC_STATUS_SUCCESS
    \<and> reefnet_sensuspro_extract_dives
        (snd (reefnet_sensuspro_device_set_fingerprint abstract fp 0))
        (concat recs) (Some cb) u =
      (DC_STATUS_SUCCESS, rev (dives_of 0 recs), run_callback cb (rev (dives_of 0 recs)) u)"
proof -
  obtain d where d: "abstract = Some d" "backend d = Reefnet_sensuspro_device_backend"
    using dev by (rule is_reefnet_SomeE)
  let ?d' = "d\<lparr>timestamp := 0\<rparr>"
  have setfp: "reefnet_sensuspro_device_set_fingerprint abstract fp 0
      = (DC_STATUS_SUCCESS, Some ?d')"
    using dev unfolding d(1) by (rule set_fingerprint_0)
  have nc: "no_cutoff (Some ?d')" using d(2) by (simp add: no_cutoff_def)
  have "\<forall>r \<in> set recs. wf_record r \<and> \<not> cutoff_hit (Some ?d') (record_timestamp r)"
    using wf no_cutoff_not_hit [OF nc] by blast
  then have "reefnet_sensuspro_extract_dives (Some ?d') (concat recs) (Some cb) u =
      (DC_STATUS_SUCCESS, rev (dives_of 0 recs), run_callback cb (rev (dives_of 0 recs)) u)"
    using no_cutoff_guard [OF nc] ac
    by (intro extract_dives_all) (simp_all add: always_continues_def)
  then show ?thesis unfolding setfp by simp
qed

theorem extract_dives_empty_fingerprint_witness:
  "wf_record dive_10 \<and> wf_record dive_20 \<and> wf_record dive_30
   \<and> length (concat [dive_10, dive_20, dive_30]) + 7 < (2 :: nat) ^ 32
   \<and> device_is_reefnet_sensuspro
        (Some ((sample_device Reefnet_sensuspro_device_backend False)\<lparr>timestamp := 20\<rparr>))
   \<and> always_continues counting_callback
   \<and> fst (reefnet_sensuspro_device_set_fingerprint
        (Some ((sample_device Reefnet_sensuspro_device_backend False)\<lparr>timestamp := 20\<rparr>))
        [] 0) = DC_STATUS_SUCCESS
   \<and> reefnet_sensuspro_extract_dives
        (snd (reefnet_sensuspro_device_set_fingerprint
           (Some ((sample_device Reefnet_sensuspro_device_backend False)\<lparr>timestamp := 20\<rparr>))
           [] 0))
        (concat [dive_10, dive_20, dive_30]) (Some counting_callback) 0 =
      (DC_STATUS_SUCCESS,
       [\<lparr>dive_offset = 27, dive_size = 12, fp_offset = 33, fp_size = 4\<rparr>,
        \<lparr>dive_offset = 14, dive_size = 13, fp_offset = 20, fp_size = 4\<rparr>,
        \<lparr>dive_offset = 0, dive_size = 14, fp_offset = 6, fp_size = 4\<rparr>], 3)"
proof -
  let ?dev = "Some ((sample_device Reefnet_sensuspro_device_backend False)\<lparr>timestamp := 20\<rparr>)"
  have wf: "\<forall>r \<in> set [dive_10, dive_20, dive_30]. wf_record r"
    using wf_dive_10 wf_dive_20 wf_dive_30 by simp
  have len: "length (concat [dive_10, dive_20, dive_30]) + 7 < (2 :: nat) ^ 32"
    by (simp add: dive_10_def dive_20_def dive_30_def)
  have dev: "device_is_reefnet_sensuspro ?dev"
    by (simp add: device_is_reefnet_sensuspro_def sample_device_def)
  have ac: "always_continues counting_callback"
    by (simp add: always_continues_def counting_callback_def)
  note inst = extract_dives_empty_fingerprint [OF wf len dev ac, of "[]" "0 :: nat"]
  have l: "length dive_10 = 14" "length dive_20 = 13" "length dive_30 = 12"
    by (simp_all add: dive_10_def dive_20_def dive_30_def)
  have "fst (reefnet_sensuspro_device_set_fingerprint ?dev [] 0) = DC_STATUS_SUCCESS"
    using inst by simp
  moreover have "reefnet_sensuspro_extract_dives
        (snd (reefnet_sensuspro_device_set_fingerprint ?dev [] 0))
        (concat [dive_10, dive_20, dive_30]) (Some counting_callback) 0 =
      (DC_STATUS_SUCCESS,
       [\<lparr>dive_offset = 27, dive_size = 12, fp_offset = 33, fp_size = 4\<rparr>,
        \<lparr>dive_offset = 14, dive_size = 13, fp_offset = 20, fp_size = 4\<rparr>,
        \<lparr>dive_offset = 0, dive_size = 14, fp_offset = 6, fp_size = 4\<rparr>], 3)"
    using inst by (simp add: l run_callback_def counting_callback_def)
  ultimately show ?thesis
    using wf_dive_10 wf_dive_20 wf_dive_30 len dev ac by simp
qed

text \<open>
  With a \<^verbatim>\<open>NULL\<close> handle, too, a record with the timestamp 0 is not delivered: on the
  buffer of such a record followed by a well-formed one, the callback is invoked for the
  second record only and the result is the data-format error.
\<close>

theorem null_handle_counterexample:
  "plain_record dive_zero_timestamp
   \<and> plain_record dive_30
   \<and> always_continues counting_callback
   \<and> reefnet_sensuspro_extract_dives (None :: unit dc_device option)
        (concat [dive_zero_timestamp, dive_30]) (Some counting_callback) 0
      = (DC_STATUS_DATAFORMAT,
         [\<lparr>dive_offset = 14, dive_size = 12, fp_offset = 20, fp_size = 4\<rparr>], 1)
   \<and> rev (dives_of 0 [dive_zero_timestamp, dive_30])
      = [\<lparr>dive_offset = 14, dive_size = 12, fp_offset = 20, fp_size = 4\<rparr>,
         \<lparr>dive_offset = 0, dive_size = 14, fp_offset = 6, fp_size = 4\<rparr>]"
proof -
  have "plain_record dive_zero_timestamp" "plain_record dive_30"
    by (simp_all add: plain_record_def dive_zero_timestamp_def dive_30_def
        memcmp_eq_def header_def footer_def)
  moreover have "always_continues counting_callback"
    by (simp add: always_continues_def counting_callback_def)
  moreover have "reefnet_sensuspro_extract_dives (None :: unit dc_device option)
        (concat [dive_zero_timestamp, dive_30]) (Some counting_callback) 0
      = (DC_STATUS_DATAFORMAT,
         [\<lparr>dive_offset = 14, dive_size = 12, fp_offset = 20, fp_size = 4\<rparr>], 1)"
    by (simp add: dive_zero_timestamp_def dive_30_def extract_eval)
  moreover have "rev (dives_of 0 [dive_zero_timestamp, dive_30])
      = [\<lparr>dive_offset = 14, dive_size = 12, fp_offset = 20, fp_size = 4\<rparr>,
         \<lparr>dive_offset = 0, dive_size = 14, fp_offset = 6, fp_size = 4\<rparr>]"
    by (simp add: dive_zero_timestamp_def dive_30_def)
  ultimately show ?thesis by simp
qed

text \<open>
  Claim C10, amended. The extraction accepts a \<^verbatim>\<open>NULL\<close> handle: the family guard is
  skipped, so the status is never the one for invalid arguments, whatever the buffer and the
  callback; no cutoff is applied, so on a buffer of well-formed records, in which the marker
  patterns occur at the record boundaries only (\<open>wf_record\<close>, which rules out the
  timestamp 0), every record is delivered to the callback, whatever its timestamp, and the
  status is success.
\<close>

theorem extract_dives_null_handle:
  assumes wf: "\<forall>r \<in> set recs. wf_record r"
    and len: "length (concat recs) + 7 < 2 ^ 32"
    and ac: "always_continues cb"
  shows "reefnet_sensuspro_extract_dives (None :: 'p dc_device option) (concat recs) (Some cb) u =
      (DC_STATUS_SUCCESS, rev (dives_of 0 recs), run_callback cb (rev (dives_of 0 recs)) u)
    \<and> fst (reefnet_sensuspro_extract_dives (None :: 'p dc_device option) data callback u')
        \<noteq> DC_STATUS_INVALIDARGS"
proof -
  have "\<forall>r \<in> set recs. wf_record r
      \<and> \<not> cutoff_hit (None :: 'p dc_device option) (record_timestamp r)"
    using wf by (simp add: cutoff_hit_def)
  then have "reefnet_sensuspro_extract_dives (None :: 'p dc_device option) (concat recs)
      (Some cb) u =
      (DC_STATUS_SUCCESS, rev (dives_of 0 recs), run_callback cb (rev (dives_of 0 recs)) u)"
    using ac by (intro extract_dives_all) (simp_all add: always_continues_def)
  moreover have "fst (reefnet_sensuspro_extract_dives (None :: 'p dc_device option) data
      callback u') \<noteq> DC_STATUS_INVALIDARGS"
    using extract_loop_status [of data "None :: 'p dc_device option" callback "length data"
        "if 4 \<le> length data then length data - 4 else 0" u' "[]"]
    unfolding reefnet_sensuspro_extract_dives_def by auto
  ultimately show ?thesis by simp
qed

theorem extract_dives_null_handle_witness:
  "wf_record dive_10 \<and> wf_record dive_20
   \<and> length (concat [dive_10, dive_20]) + 7 < (2 :: nat) ^ 32
   \<and> always_continues counting_callback
   \<and> reefnet_sensuspro_extract_dives (None :: unit dc_device option)
        (concat [dive_10, dive_20]) (Some counting_callback) 0 =
      (DC_STATUS_SUCCESS,
       [\<lparr>dive_offset = 14, dive_size = 13, fp_offset = 20, fp_size = 4\<rparr>,
        \<lparr>dive_offset = 0, dive_size = 14, fp_offset = 6, fp_size = 4\<rparr>], 2)
   \<and> fst (reefnet_sensuspro_extract_dives (None :: unit dc_device option) dive_open
        (None :: nat dc_dive_callback_t option) 0) \<noteq> DC_STATUS_INVALIDARGS"
proof -
  have wf: "\<forall>r \<in> set [dive_10, dive_20]. wf_record r"
    using wf_dive_10 wf_dive_20 by simp
  have len: "length (concat [dive_10, dive_20]) + 7 < (2 :: nat) ^ 32"
    by (simp add: dive_10_def dive_20_def)
  have ac: "always_continues counting_callback"
    by (simp add: always_continues_def counting_callback_def)
  note inst = extract_dives_null_handle [OF wf len ac, where 'p = unit, of "0 :: nat" dive_open
      "None :: nat dc_dive_callback_t option" "0 :: nat"]
  have l: "length dive_10 = 14" "length dive_20 = 13"
    by (simp_all add: dive_10_def dive_20_def)
  have "reefnet_sensuspro_extract_dives (None :: unit dc_device option)
        (concat [dive_10, dive_20]) (Some counting_callback) 0 =
      (DC_STATUS_SUCCESS,
       [\<lparr>dive_offset = 14, dive_size = 13, fp_offset = 20, fp_size = 4\<rparr>,
        \<lparr>dive_offset = 0, dive_size = 14, fp_offset = 6, fp_size = 4\<rparr>], 2)"
    using inst by (simp add: l run_callback_def counting_callback_def)
  moreover have "fst (reefnet_sensuspro_extract_dives (None :: unit dc_device option) dive_open
        (None :: nat dc_dive_callback_t option) 0) \<noteq> DC_STATUS_INVALIDARGS"
    using inst by simp
  ultimately show ?thesis
    using wf_dive_10 wf_dive_20 len ac by simp
qed

section \<open>A start marker without a stop marker\<close>

lemma extract_loop_no_footer:
  assumes "0 < current"
    and "memcmp_eq data (current - 1) header"
    and "\<forall>q. current - 1 + 10 \<le> q \<and> q + 2 \<le> previous \<longrightarrow> \<not> memcmp_eq data q footer"
  shows "extract_loop data device callback previous current u calls
      = (DC_STATUS_DATAFORMAT, calls, u)"
proof -
  have "find_footer data previous (current - 1 + 10) = None"
    using assms(3) by (rule find_footer_None)
  then show ?thesis
    using assms(1,2) by (subst extract_loop.simps) (simp add: Let_def)
qed

text \<open>
  Claim C6. Let the scan reach a start marker that no footer follows, from ten bytes behind
  the marker up to the previous boundary: the start of the record consumed before, or the
  end of the buffer when there is none (\<open>post\<close> empty). The buffer is any bytes \<open>pre\<close>,
  the record without footer, and the well-formed records \<open>post\<close> that the scan consumes
  first. The extraction returns the data-format error; the callback has been invoked for the
  records of \<open>post\<close> only, and no invocation carries the offset of the malformed record.
  The last part of the statement is the same fact for any state of the outer loop: when
  the byte before \<open>current\<close> starts a header and no footer lies between ten bytes behind it
  and \<open>previous\<close>, the loop returns the data-format error and adds no invocation.
\<close>

theorem extract_dives_missing_footer:
  assumes bad: "unterminated_record bad"
    and post: "\<forall>r \<in> set post. wf_record r \<and> \<not> cutoff_hit abstract (record_timestamp r)"
    and len: "length (pre @ bad @ concat post) + 7 < 2 ^ 32"
    and dev: "abstract = None \<or> device_is_reefnet_sensuspro abstract"
    and ac: "always_continues cb"
  shows "reefnet_sensuspro_extract_dives abstract (pre @ bad @ concat post) (Some cb) u =
      (DC_STATUS_DATAFORMAT, rev (dives_of (length pre + length bad) post),
       run_callback cb (rev (dives_of (length pre + length bad) post)) u)
    \<and> length pre \<notin> dive_offset ` set (rev (dives_of (length pre + length bad) post))
    \<and> (0 < current \<and> memcmp_eq data (current - 1) header
         \<and> (\<forall>q. current - 1 + 10 \<le> q \<and> q + 2 \<le> previous \<longrightarrow> \<not> memcmp_eq data q footer)
       \<longrightarrow> extract_loop data device callback previous current u' calls
             = (DC_STATUS_DATAFORMAT, calls, u'))"
proof -
  have ac': "\<forall>v u. fst (cb v u) \<noteq> 0" using ac by (simp add: always_continues_def)
  have "5 \<le> length bad" using bad by (simp add: unterminated_record_def)
  then have "0 < length bad" by linarith
  then have "length pre \<notin> dive_offset ` set (rev (dives_of (length pre + length bad) post))"
    by (auto dest: dives_of_offset)
  then show ?thesis
    using extract_dives_broken [OF bad post dev ac', of pre u]
      extract_loop_no_footer [of current data previous device callback u' calls]
    by simp
qed

theorem extract_dives_missing_footer_witness:
  "unterminated_record dive_open
   \<and> wf_record dive_30
   \<and> \<not> cutoff_hit (None :: unit dc_device option) (record_timestamp dive_30)
   \<and> length ([0x09, 0x09] @ dive_open @ concat [dive_30]) + 7 < (2 :: nat) ^ 32
   \<and> always_continues counting_callback
   \<and> reefnet_sensuspro_extract_dives (None :: unit dc_device option)
        ([0x09, 0x09] @ dive_open @ concat [dive_30]) (Some counting_callback) 0 =
      (DC_STATUS_DATAFORMAT,
       [\<lparr>dive_offset = 15, dive_size = 12, fp_offset = 21, fp_size = 4\<rparr>], 1)
   \<and> (2 :: nat) \<notin> dive_offset `
        set [\<lparr>dive_offset = 15, dive_size = 12, fp_offset = 21, fp_size = 4\<rparr>]
   \<and> (0 :: nat) < 1 \<and> memcmp_eq dive_open (1 - 1) header
   \<and> extract_loop dive_open (None :: unit dc_device option) (Some counting_callback) 13 1 0 []
      = (DC_STATUS_DATAFORMAT, [], 0)"
proof -
  have post: "\<forall>r \<in> set [dive_30]. wf_record r
      \<and> \<not> cutoff_hit (None :: unit dc_device option) (record_timestamp r)"
    using wf_dive_30 by (simp add: cutoff_hit_def)
  have len: "length ([0x09, 0x09] @ dive_open @ concat [dive_30]) + 7 < (2 :: nat) ^ 32"
    by (simp add: dive_open_def dive_30_def)
  have dev: "(None :: unit dc_device option) = None
      \<or> device_is_reefnet_sensuspro (None :: unit dc_device option)" by simp
  have ac: "always_continues counting_callback"
    by (simp add: always_continues_def counting_callback_def)
  have hd: "memcmp_eq dive_open (1 - 1) header"
    by (simp add: memcmp_eq_def dive_open_def header_def)
  have nf: "\<forall>q. 1 - 1 + 10 \<le> q \<and> q + 2 \<le> 13 \<longrightarrow> \<not> memcmp_eq dive_open q footer"
  proof (intro allI impI)
    fix q :: nat assume "1 - 1 + 10 \<le> q \<and> q + 2 \<le> 13"
    then have "q = 10 \<or> q = 11" by auto
    then show "\<not> memcmp_eq dive_open q footer"
      by (auto simp: memcmp_eq_def dive_open_def footer_def)
  qed
  note inst = extract_dives_missing_footer [OF unterminated_dive_open post len dev ac,
      where u = "0 :: nat" and current = 1 and data = dive_open and previous = 13
        and device = "None :: unit dc_device option" and callback = "Some counting_callback"
        and u' = "0 :: nat" and calls = "[]"]
  have l: "length dive_open = 13" "length dive_30 = 12"
    by (simp_all add: dive_open_def dive_30_def)
  have "reefnet_sensuspro_extract_dives (None :: unit dc_device option)
        ([0x09, 0x09] @ dive_open @ concat [dive_30]) (Some counting_callback) 0 =
      (DC_STATUS_DATAFORMAT,
       [\<lparr>dive_offset = 15, dive_size = 12, fp_offset = 21, fp_size = 4\<rparr>], 1)"
    using inst by (simp add: l run_callback_def counting_callback_def)
  moreover have "extract_loop dive_open (None :: unit dc_device option)
      (Some counting_callback) 13 1 0 [] = (DC_STATUS_DATAFORMAT, [], 0)"
    using inst hd nf by simp
  ultimately show ?thesis
    using unterminated_dive_open post len ac hd by simp
qed

section \<open>The example scenario\<close>

text \<open>
  The scenario on the code, with the concrete records \<open>scenario_100\<close> and
  \<open>scenario_50\<close>: the record with timestamp 50 lies at the higher offset and is reported
  first, the record with timestamp 100 second.
\<close>

theorem scenario_order_counterexample:
  "reported_timestamps (scenario_100 @ scenario_50)
     (fst (snd (reefnet_sensuspro_extract_dives (None :: unit dc_device option)
        (scenario_100 @ scenario_50) (Some counting_callback) 0))) = [50, 100]
   \<and> map (dive_bytes (scenario_100 @ scenario_50))
     (fst (snd (reefnet_sensuspro_extract_dives (None :: unit dc_device option)
        (scenario_100 @ scenario_50) (Some counting_callback) 0))) = [scenario_50, scenario_100]
   \<and> reported_timestamps (scenario_100 @ scenario_50)
     (fst (snd (reefnet_sensuspro_extract_dives (None :: unit dc_device option)
        (scenario_100 @ scenario_50) (Some counting_callback) 0))) \<noteq> [100, 50]"
proof -
  have "\<forall>r \<in> set [scenario_100, scenario_50]. wf_record r
      \<and> \<not> cutoff_hit (None :: unit dc_device option) (record_timestamp r)"
    using wf_scenario_100 wf_scenario_50 by (simp add: cutoff_hit_def)
  moreover have "\<forall>v u. fst (counting_callback v u) \<noteq> 0"
    by (simp add: counting_callback_def)
  ultimately have "reefnet_sensuspro_extract_dives (None :: unit dc_device option)
      (concat [scenario_100, scenario_50]) (Some counting_callback) 0 =
    (DC_STATUS_SUCCESS, rev (dives_of 0 [scenario_100, scenario_50]),
     run_callback counting_callback (rev (dives_of 0 [scenario_100, scenario_50])) 0)"
    by (intro extract_dives_all) simp_all
  then have calls: "fst (snd (reefnet_sensuspro_extract_dives (None :: unit dc_device option)
        (scenario_100 @ scenario_50) (Some counting_callback) 0)) =
      [\<lparr>dive_offset = 18, dive_size = 18, fp_offset = 24, fp_size = 4\<rparr>,
       \<lparr>dive_offset = 0, dive_size = 18, fp_offset = 6, fp_size = 4\<rparr>]"
    by (simp add: scenario_100_bytes scenario_50_bytes)
  show ?thesis
    unfolding calls
    by (simp add: reported_timestamps_def dive_bytes_def array_uint32_le_def
        scenario_100_bytes scenario_50_bytes)
qed

lemma length_uint32_le_bytes: "length (uint32_le_bytes w) = 4"
  by (simp add: uint32_le_bytes_def)

text \<open>
  Claim C4, amended. For the buffer that consists of the record with timestamp 100 directly
  followed by the record with timestamp 50, both well-formed, the extraction with no cutoff
  reports the record with timestamp 50 first and the record with timestamp 100 second: the
  order is that of decreasing offsets, not that of the timestamps. The timestamp of the
  scenario's layout sits ten bytes behind the start of the record.
\<close>

theorem scenario_higher_offset_first:
  assumes A: "A = scenario_record six1 100 pad1"
    and B: "B = scenario_record six2 50 pad2"
    and six: "length six1 = 6" "length six2 = 6"
    and wfA: "wf_record A"
    and wfB: "wf_record B"
    and len: "length (A @ B) + 7 < 2 ^ 32"
    and nc: "no_cutoff abstract"
    and ac: "always_continues cb"
  shows "reefnet_sensuspro_extract_dives abstract (A @ B) (Some cb) u =
      (DC_STATUS_SUCCESS,
       [\<lparr>dive_offset = length A, dive_size = length B, fp_offset = length A + 6, fp_size = 4\<rparr>,
        \<lparr>dive_offset = 0, dive_size = length A, fp_offset = 6, fp_size = 4\<rparr>],
       run_callback cb
         [\<lparr>dive_offset = length A, dive_size = length B, fp_offset = length A + 6, fp_size = 4\<rparr>,
          \<lparr>dive_offset = 0, dive_size = length A, fp_offset = 6, fp_size = 4\<rparr>] u)
    \<and> map (dive_bytes (A @ B))
       [\<lparr>dive_offset = length A, dive_size = length B, fp_offset = length A + 6, fp_size = 4\<rparr>,
        \<lparr>dive_offset = 0, dive_size = length A, fp_offset = 6, fp_size = 4\<rparr>] = [B, A]
    \<and> take 4 (drop 10 B) = uint32_le_bytes 50
    \<and> take 4 (drop 10 A) = uint32_le_bytes 100"
proof -
  have "\<forall>r \<in> set [A, B]. wf_record r \<and> \<not> cutoff_hit abstract (record_timestamp r)"
    using wfA wfB no_cutoff_not_hit [OF nc] by simp
  then have "reefnet_sensuspro_extract_dives abstract (concat [A, B]) (Some cb) u =
      (DC_STATUS_SUCCESS, rev (dives_of 0 [A, B]), run_callback cb (rev (dives_of 0 [A, B])) u)"
    using no_cutoff_guard [OF nc] ac
    by (intro extract_dives_all) (simp_all add: always_continues_def)
  moreover have "take 4 (drop 10 B) = uint32_le_bytes 50"
    using six by (simp add: B scenario_record_def header_def length_uint32_le_bytes)
  moreover have "take 4 (drop 10 A) = uint32_le_bytes 100"
    using six by (simp add: A scenario_record_def header_def length_uint32_le_bytes)
  ultimately show ?thesis by (simp add: dive_bytes_def)
qed

theorem scenario_higher_offset_first_witness:
  "scenario_100 = scenario_record [0x01, 0x01, 0x64, 0x00, 0x00, 0x00] 100 [0x01, 0x01]
   \<and> scenario_50 = scenario_record [0x01, 0x01, 0x32, 0x00, 0x00, 0x00] 50 [0x01, 0x01]
   \<and> length [0x01, 0x01, 0x64, 0x00, 0x00, 0x00 :: byte] = 6
   \<and> length [0x01, 0x01, 0x32, 0x00, 0x00, 0x00 :: byte] = 6
   \<and> wf_record scenario_100 \<and> wf_record scenario_50
   \<and> length (scenario_100 @ scenario_50) + 7 < (2 :: nat) ^ 32
   \<and> no_cutoff (None :: unit dc_device option)
   \<and> always_continues counting_callback
   \<and> reefnet_sensuspro_extract_dives (None :: unit dc_device option)
        (scenario_100 @ scenario_50) (Some counting_callback) 0 =
      (DC_STATUS_SUCCESS,
       [\<lparr>dive_offset = 18, dive_size = 18, fp_offset = 24, fp_size = 4\<rparr>,
        \<lparr>dive_offset = 0, dive_size = 18, fp_offset = 6, fp_size = 4\<rparr>], 2)
   \<and> take 4 (drop 10 scenario_50) = uint32_le_bytes 50
   \<and> take 4 (drop 10 scenario_100) = uint32_le_bytes 100"
proof -
  have six: "length [0x01, 0x01, 0x64, 0x00, 0x00, 0x00 :: byte] = 6"
    "length [0x01, 0x01, 0x32, 0x00, 0x00, 0x00 :: byte] = 6" by simp_all
  have len: "length (scenario_100 @ scenario_50) + 7 < (2 :: nat) ^ 32"
    by (simp add: scenario_100_bytes scenario_50_bytes)
  have nc: "no_cutoff (None :: unit dc_device option)" by (simp add: no_cutoff_def)
  have ac: "always_continues counting_callback"
    by (simp add: always_continues_def counting_callback_def)
  have l: "length scenario_100 = 18" "length scenario_50 = 18"
    by (simp_all add: scenario_100_bytes scenario_50_bytes)
  note inst = scenario_higher_offset_first [OF scenario_100_def scenario_50_def six
      wf_scenario_100 wf_scenario_50 len nc ac, of "0 :: nat"]
  have "reefnet_sensuspro_extract_dives (None :: unit dc_device option)
        (scenario_100 @ scenario_50) (Some counting_callback) 0 =
      (DC_STATUS_SUCCESS,
       [\<lparr>dive_offset = 18, dive_size = 18, fp_offset = 24, fp_size = 4\<rparr>,
        \<lparr>dive_offset = 0, dive_size = 18, fp_offset = 6, fp_size = 4\<rparr>], 2)"
    using inst by (simp add: l run_callback_def counting_callback_def)
  moreover have "take 4 (drop 10 scenario_50) = uint32_le_bytes 50"
    "take 4 (drop 10 scenario_100) = uint32_le_bytes 100"
    using inst by simp_all
  ultimately show ?thesis
    using scenario_100_def scenario_50_def wf_scenario_100 wf_scenario_50 len nc ac by simp
qed

section \<open>The packet exchange\<close>

text \<open>
  Claim C7. If the cancellation flag of the handle is set when the exchange begins, the
  packet function returns the cancellation status at once. The answer array and the device
  come back unchanged, whatever the transport is: no byte has been written and no line
  toggled. With the recording transport the list of calls stays empty.
\<close>

theorem packet_cancelled_before_send:
  assumes "cancel device"
  shows "suunto_vyper2_device_packet ext device command csize answer asize sz
      = (DC_STATUS_CANCELLED, answer, device)"
  using assms by (simp add: suunto_vyper2_device_packet_def device_is_cancelled_def)

theorem packet_cancelled_before_send_witness:
  "cancel (sample_device Suunto_vyper2_device_backend True)
   \<and> suunto_vyper2_device_packet (recording_transport 7 8 sample_answer)
        (sample_device Suunto_vyper2_device_backend True) sample_command 7 (replicate 8 0) 8 1
      = (DC_STATUS_CANCELLED, replicate 8 0, sample_device Suunto_vyper2_device_backend True)
   \<and> port (snd (snd (suunto_vyper2_device_packet (recording_transport 7 8 sample_answer)
        (sample_device Suunto_vyper2_device_backend True) sample_command 7 (replicate 8 0) 8 1)))
      = []"
proof -
  have c: "cancel (sample_device Suunto_vyper2_device_backend True)"
    by (simp add: sample_device_def)
  note inst = packet_cancelled_before_send [OF c, of "recording_transport 7 8 sample_answer"
      sample_command 7 "replicate 8 0" 8 1]
  have "port (sample_device Suunto_vyper2_device_backend True) = []"
    by (simp add: sample_device_def)
  then show ?thesis using c inst by simp
qed

text \<open>The three ways in which an exchange that is not cancelled ends.\<close>

lemma packet_write_failed:
  assumes "\<not> cancel device"
    and "serial_write ext (serial_set_rts ext (serial_sleep ext (port device) 600) 1)
           command (unat csize) = (wn, p1)"
    and "word_of_int wn \<noteq> csize"
  shows "suunto_vyper2_device_packet ext device command csize answer asize sz
      = (EXITCODE wn, answer, device\<lparr>port := p1\<rparr>)"
  using assms by (simp add: suunto_vyper2_device_packet_def device_is_cancelled_def Let_def)

lemma packet_read_failed:
  assumes "\<not> cancel device"
    and "serial_write ext (serial_set_rts ext (serial_sleep ext (port device) 600) 1)
           command (unat csize) = (wn, p1)"
    and "word_of_int wn = csize"
    and "serial_read ext (serial_set_rts ext p1 0) answer (unat asize) = (rn, reply, p2)"
    and "word_of_int rn \<noteq> asize"
  shows "suunto_vyper2_device_packet ext device command csize answer asize sz
      = (EXITCODE rn, reply, device\<lparr>port := p2\<rparr>)"
  using assms by (simp add: suunto_vyper2_device_packet_def device_is_cancelled_def Let_def)

lemma packet_validated:
  assumes "\<not> cancel device"
    and "serial_write ext (serial_set_rts ext (serial_sleep ext (port device) 600) 1)
           command (unat csize) = (wn, p1)"
    and "word_of_int wn = csize"
    and "serial_read ext (serial_set_rts ext p1 0) answer (unat asize) = (rn, reply, p2)"
    and "word_of_int rn = asize"
  shows "suunto_vyper2_device_packet ext device command csize answer asize sz =
      (if reply ! 0 \<noteq> command ! 0
          \<or> ucast (array_uint16_be reply 1) + 4 \<noteq> asize
          \<or> take (unat (asize - sz - 4)) (drop 3 command)
               \<noteq> take (unat (asize - sz - 4)) (drop 3 reply)
          \<or> reply ! unat (asize - 1) \<noteq> checksum_xor_uint8 reply (unat (asize - 1)) 0
       then DC_STATUS_PROTOCOL else DC_STATUS_SUCCESS,
       reply, device\<lparr>port := p2\<rparr>)"
  using assms by (simp add: suunto_vyper2_device_packet_def device_is_cancelled_def Let_def)

lemma recording_write:
  "serial_write (recording_transport wn rn reply)
     (serial_set_rts (recording_transport wn rn reply)
        (serial_sleep (recording_transport wn rn reply) p 600) 1) command n
   = (wn, p @ [Sleep 600, Set_rts 1, Write command n])"
  by (simp add: recording_transport_def)

lemma recording_read:
  "serial_read (recording_transport wn rn reply)
     (serial_set_rts (recording_transport wn rn reply) p 0) answer n
   = (rn, reply, p @ [Set_rts 0, Read n])"
  by (simp add: recording_transport_def)

lemma sample_not_cancelled: "\<not> cancel (sample_device tbl False)"
  by (simp add: sample_device_def)

text \<open>The sample answer is accepted: the five calls are made and the status is success.\<close>

lemma packet_sample_success:
  "suunto_vyper2_device_packet (recording_transport 7 8 sample_answer)
     (sample_device Suunto_vyper2_device_backend False) sample_command 7 (replicate 8 0) 8 1
   = (DC_STATUS_SUCCESS, sample_answer,
      (sample_device Suunto_vyper2_device_backend False)
        \<lparr>port := [Sleep 600, Set_rts 1, Write sample_command 7, Set_rts 0, Read 8]\<rparr>)"
  by (simp add: suunto_vyper2_device_packet_def recording_transport_def sample_device_def
      sample_command_def sample_answer_def device_is_cancelled_def Let_def
      array_uint16_be_def checksum_xor_uint8_def)

text \<open>
  Claim C3. In one packet exchange that is not cancelled, let the write return \<open>wn\<close> and
  the read return \<open>rn\<close> and deliver \<open>reply\<close>. A write or read whose count differs from
  the requested size gives the I/O error when the count is \<open>-1\<close> and the timeout error for
  every other count. When both counts are right, each of the three defects of the response
  gives the protocol error, and so neither the I/O nor the timeout error, whatever the
  other fields hold: a first byte that differs from that of the command, a big-endian
  length field at offset 1 that, plus 4, differs from the response size, and a last byte
  that differs from the XOR checksum with seed 0 of the bytes before it.
\<close>

theorem packet_failure_classes:
  assumes nc: "\<not> cancel device"
    and w: "serial_write ext (serial_set_rts ext (serial_sleep ext (port device) 600) 1)
           command (unat csize) = (wn, p1)"
    and r: "serial_read ext (serial_set_rts ext p1 0) answer (unat asize) = (rn, reply, p2)"
  shows "(word_of_int wn \<noteq> csize \<longrightarrow>
            fst (suunto_vyper2_device_packet ext device command csize answer asize sz)
              = (if wn = - 1 then DC_STATUS_IO else DC_STATUS_TIMEOUT))
    \<and> (word_of_int wn = csize \<and> word_of_int rn \<noteq> asize \<longrightarrow>
            fst (suunto_vyper2_device_packet ext device command csize answer asize sz)
              = (if rn = - 1 then DC_STATUS_IO else DC_STATUS_TIMEOUT))
    \<and> (word_of_int wn = csize \<and> word_of_int rn = asize \<and>
          (reply ! 0 \<noteq> command ! 0
           \<or> ucast (array_uint16_be reply 1) + 4 \<noteq> asize
           \<or> reply ! unat (asize - 1) \<noteq> checksum_xor_uint8 reply (unat (asize - 1)) 0) \<longrightarrow>
            fst (suunto_vyper2_device_packet ext device command csize answer asize sz)
              = DC_STATUS_PROTOCOL)"
proof (intro conjI impI)
  assume "word_of_int wn \<noteq> csize"
  then show "fst (suunto_vyper2_device_packet ext device command csize answer asize sz)
      = (if wn = - 1 then DC_STATUS_IO else DC_STATUS_TIMEOUT)"
    using packet_write_failed [OF nc w] by (simp add: EXITCODE_def)
next
  assume "word_of_int wn = csize \<and> word_of_int rn \<noteq> asize"
  then show "fst (suunto_vyper2_device_packet ext device command csize answer asize sz)
      = (if rn = - 1 then DC_STATUS_IO else DC_STATUS_TIMEOUT)"
    using packet_read_failed [OF nc w _ r] by (simp add: EXITCODE_def)
next
  assume "word_of_int wn = csize \<and> word_of_int rn = asize \<and>
          (reply ! 0 \<noteq> command ! 0
           \<or> ucast (array_uint16_be reply 1) + 4 \<noteq> asize
           \<or> reply ! unat (asize - 1) \<noteq> checksum_xor_uint8 reply (unat (asize - 1)) 0)"
  then show "fst (suunto_vyper2_device_packet ext device command csize answer asize sz)
      = DC_STATUS_PROTOCOL"
    using packet_validated [OF nc w _ r, of sz] by auto
qed

theorem packet_failure_classes_witness:
  "\<not> cancel (sample_device Suunto_vyper2_device_backend False)
   \<and> fst (suunto_vyper2_device_packet (recording_transport (- 1) 8 sample_answer)
        (sample_device Suunto_vyper2_device_backend False) sample_command 7 (replicate 8 0) 8 1)
      = DC_STATUS_IO
   \<and> fst (suunto_vyper2_device_packet (recording_transport 3 8 sample_answer)
        (sample_device Suunto_vyper2_device_backend False) sample_command 7 (replicate 8 0) 8 1)
      = DC_STATUS_TIMEOUT
   \<and> fst (suunto_vyper2_device_packet (recording_transport 7 (- 1) sample_answer)
        (sample_device Suunto_vyper2_device_backend False) sample_command 7 (replicate 8 0) 8 1)
      = DC_STATUS_IO
   \<and> fst (suunto_vyper2_device_packet (recording_transport 7 5 sample_answer)
        (sample_device Suunto_vyper2_device_backend False) sample_command 7 (replicate 8 0) 8 1)
      = DC_STATUS_TIMEOUT
   \<and> fst (suunto_vyper2_device_packet
        (recording_transport 7 8 [0x06, 0x00, 0x04, 0x00, 0x23, 0x01, 0xAB, 0x8B])
        (sample_device Suunto_vyper2_device_backend False) sample_command 7 (replicate 8 0) 8 1)
      = DC_STATUS_PROTOCOL
   \<and> fst (suunto_vyper2_device_packet
        (recording_transport 7 8 [0x05, 0x00, 0x05, 0x00, 0x23, 0x01, 0xAB, 0x89])
        (sample_device Suunto_vyper2_device_backend False) sample_command 7 (replicate 8 0) 8 1)
      = DC_STATUS_PROTOCOL
   \<and> fst (suunto_vyper2_device_packet
        (recording_transport 7 8 [0x05, 0x00, 0x04, 0x00, 0x23, 0x01, 0xAB, 0x00])
        (sample_device Suunto_vyper2_device_backend False) sample_command 7 (replicate 8 0) 8 1)
      = DC_STATUS_PROTOCOL"
proof -
  let ?dev = "sample_device Suunto_vyper2_device_backend False"
  note nc = sample_not_cancelled [of Suunto_vyper2_device_backend]
  have u: "unat (7 :: 32 word) = 7" "unat (8 :: 32 word) = 8" by simp_all
  have w1: "fst (suunto_vyper2_device_packet (recording_transport (- 1) 8 sample_answer)
        ?dev sample_command 7 (replicate 8 0) 8 1) = DC_STATUS_IO"
    using packet_failure_classes [where ext = "recording_transport (- 1) 8 sample_answer"
        and device = "?dev" and command = sample_command and csize = 7
        and answer = "replicate 8 0" and asize = 8 and sz = 1,
        OF nc recording_write recording_read]
    by simp
  have w2: "fst (suunto_vyper2_device_packet (recording_transport 3 8 sample_answer)
        ?dev sample_command 7 (replicate 8 0) 8 1) = DC_STATUS_TIMEOUT"
    using packet_failure_classes [where ext = "recording_transport 3 8 sample_answer"
        and device = "?dev" and command = sample_command and csize = 7
        and answer = "replicate 8 0" and asize = 8 and sz = 1,
        OF nc recording_write recording_read]
    by simp
  have r1: "fst (suunto_vyper2_device_packet (recording_transport 7 (- 1) sample_answer)
        ?dev sample_command 7 (replicate 8 0) 8 1) = DC_STATUS_IO"
    using packet_failure_classes [where ext = "recording_transport 7 (- 1) sample_answer"
        and device = "?dev" and command = sample_command and csize = 7
        and answer = "replicate 8 0" and asize = 8 and sz = 1,
        OF nc recording_write recording_read]
    by simp
  have r2: "fst (suunto_vyper2_device_packet (recording_transport 7 5 sample_answer)
        ?dev sample_command 7 (replicate 8 0) 8 1) = DC_STATUS_TIMEOUT"
    using packet_failure_classes [where ext = "recording_transport 7 5 sample_answer"
        and device = "?dev" and command = sample_command and csize = 7
        and answer = "replicate 8 0" and asize = 8 and sz = 1,
        OF nc recording_write recording_read]
    by simp
  have a: "fst (suunto_vyper2_device_packet
        (recording_transport 7 8 [0x06, 0x00, 0x04, 0x00, 0x23, 0x01, 0xAB, 0x8B])
        ?dev sample_command 7 (replicate 8 0) 8 1) = DC_STATUS_PROTOCOL"
    using packet_failure_classes [where ext = "recording_transport 7 8 ([0x06, 0x00, 0x04, 0x00, 0x23, 0x01, 0xAB, 0x8B])"
        and device = "?dev" and command = sample_command and csize = 7
        and answer = "replicate 8 0" and asize = 8 and sz = 1,
        OF nc recording_write recording_read]
    by (simp add: sample_command_def)
  have b: "fst (suunto_vyper2_device_packet
        (recording_transport 7 8 [0x05, 0x00, 0x05, 0x00, 0x23, 0x01, 0xAB, 0x89])
        ?dev sample_command 7 (replicate 8 0) 8 1) = DC_STATUS_PROTOCOL"
    using packet_failure_classes [where ext = "recording_transport 7 8 ([0x05, 0x00, 0x05, 0x00, 0x23, 0x01, 0xAB, 0x89])"
        and device = "?dev" and command = sample_command and csize = 7
        and answer = "replicate 8 0" and asize = 8 and sz = 1,
        OF nc recording_write recording_read]
    by (simp add: sample_command_def array_uint16_be_def)
  have c: "fst (suunto_vyper2_device_packet
        (recording_transport 7 8 [0x05, 0x00, 0x04, 0x00, 0x23, 0x01, 0xAB, 0x00])
        ?dev sample_command 7 (replicate 8 0) 8 1) = DC_STATUS_PROTOCOL"
    using packet_failure_classes [where ext = "recording_transport 7 8 ([0x05, 0x00, 0x04, 0x00, 0x23, 0x01, 0xAB, 0x00])"
        and device = "?dev" and command = sample_command and csize = 7
        and answer = "replicate 8 0" and asize = 8 and sz = 1,
        OF nc recording_write recording_read]
    by (simp add: sample_command_def array_uint16_be_def checksum_xor_uint8_def)
  show ?thesis using nc w1 w2 r1 r2 a b c by simp
qed

section \<open>The family guard\<close>

lemma foreign_reefnet:
  "foreign_handle Reefnet_sensuspro_device_backend a \<longleftrightarrow> \<not> device_is_reefnet_sensuspro a"
  by (simp add: foreign_handle_def device_is_reefnet_sensuspro_def split: option.splits)

lemma foreign_vyper2:
  "foreign_handle Suunto_vyper2_device_backend a \<longleftrightarrow> \<not> device_is_suunto_vyper2 a"
  by (simp add: foreign_handle_def device_is_suunto_vyper2_def split: option.splits)

text \<open>
  The packet function of the Vyper2 has no family guard: on a handle of the Sensus Pro
  family whose cancellation flag is set it returns the cancellation status.
\<close>

theorem packet_unguarded_counterexample:
  "foreign_handle Suunto_vyper2_device_backend
     (Some (sample_device Reefnet_sensuspro_device_backend True))
   \<and> fst (suunto_vyper2_device_packet (recording_transport 7 8 sample_answer)
        (sample_device Reefnet_sensuspro_device_backend True) sample_command 7
        (replicate 8 0) 8 1) = DC_STATUS_CANCELLED
   \<and> fst (suunto_vyper2_device_packet (recording_transport 7 8 sample_answer)
        (sample_device Reefnet_sensuspro_device_backend True) sample_command 7
        (replicate 8 0) 8 1) \<noteq> DC_STATUS_INVALIDARGS"
  by (simp add: foreign_handle_def sample_device_def suunto_vyper2_device_packet_def
      device_is_cancelled_def)

text \<open>
  Claim C8, amended. Each of the operations \<^verbatim>\<open>set_fingerprint\<close>, \<^verbatim>\<open>set_timestamp\<close>,
  \<^verbatim>\<open>get_handshake\<close>, \<^verbatim>\<open>dump\<close>, \<^verbatim>\<open>foreach\<close>, \<^verbatim>\<open>close\<close> and
  \<^verbatim>\<open>write_interval\<close> of the Sensus Pro, and \<^verbatim>\<open>close\<close> and \<^verbatim>\<open>reset_maxdepth\<close> of
  the Vyper2, invoked on a handle that is \<^verbatim>\<open>NULL\<close> or carries another backend table than
  that of its family, returns the status for invalid arguments and leaves the handle, the
  port behind it and the caller's buffers as they were. The packet function is not among
  them: it is reached through the backend table only and checks nothing.
\<close>

theorem family_guard_rejects:
  "(foreign_handle Reefnet_sensuspro_device_backend a \<longrightarrow>
       reefnet_sensuspro_device_set_fingerprint a data sz = (DC_STATUS_INVALIDARGS, a)
     \<and> reefnet_sensuspro_device_set_timestamp a ts = (DC_STATUS_INVALIDARGS, a)
     \<and> reefnet_sensuspro_device_get_handshake ext a buf sz = (DC_STATUS_INVALIDARGS, a, buf)
     \<and> reefnet_sensuspro_device_dump ext a buffer = (DC_STATUS_INVALIDARGS, a, buffer)
     \<and> reefnet_sensuspro_device_foreach ext a callback u = (DC_STATUS_INVALIDARGS, a, [], u)
     \<and> reefnet_sensuspro_device_close ext a = (DC_STATUS_INVALIDARGS, a)
     \<and> reefnet_sensuspro_device_write_interval ext a interval = (DC_STATUS_INVALIDARGS, a))
   \<and> (foreign_handle Suunto_vyper2_device_backend a \<longrightarrow>
       suunto_vyper2_device_close ext a = (DC_STATUS_INVALIDARGS, a)
     \<and> suunto_vyper2_device_reset_maxdepth ext a = (DC_STATUS_INVALIDARGS, a))"
  unfolding foreign_reefnet foreign_vyper2
  by (simp add: reefnet_sensuspro_device_set_fingerprint_def
      reefnet_sensuspro_device_set_timestamp_def reefnet_sensuspro_device_get_handshake_def
      reefnet_sensuspro_device_dump_def reefnet_sensuspro_device_foreach_def
      reefnet_sensuspro_device_close_def reefnet_sensuspro_device_write_interval_def
      suunto_vyper2_device_close_def suunto_vyper2_device_reset_maxdepth_def)

theorem family_guard_rejects_witness:
  "foreign_handle Reefnet_sensuspro_device_backend (None :: serial_call list dc_device option)
   \<and> foreign_handle Suunto_vyper2_device_backend (None :: serial_call list dc_device option)
   \<and> foreign_handle Reefnet_sensuspro_device_backend
        (Some (sample_device Suunto_vyper2_device_backend False))
   \<and> foreign_handle Suunto_vyper2_device_backend
        (Some (sample_device Reefnet_sensuspro_device_backend False))
   \<and> reefnet_sensuspro_device_close (recording_transport 1 12 [])
        (None :: serial_call list dc_device option) = (DC_STATUS_INVALIDARGS, None)
   \<and> suunto_vyper2_device_reset_maxdepth (recording_transport 1 12 [])
        (None :: serial_call list dc_device option) = (DC_STATUS_INVALIDARGS, None)
   \<and> reefnet_sensuspro_device_foreach (recording_transport 1 12 [])
        (Some (sample_device Suunto_vyper2_device_backend False)) (Some counting_callback) 0
      = (DC_STATUS_INVALIDARGS, Some (sample_device Suunto_vyper2_device_backend False), [], 0)
   \<and> reefnet_sensuspro_device_set_timestamp
        (Some (sample_device Suunto_vyper2_device_backend False)) 5
      = (DC_STATUS_INVALIDARGS, Some (sample_device Suunto_vyper2_device_backend False))
   \<and> suunto_vyper2_device_close (recording_transport 1 12 [])
        (Some (sample_device Reefnet_sensuspro_device_backend False))
      = (DC_STATUS_INVALIDARGS, Some (sample_device Reefnet_sensuspro_device_backend False))"
proof -
  have f1: "foreign_handle Reefnet_sensuspro_device_backend
      (None :: serial_call list dc_device option)"
    and f2: "foreign_handle Suunto_vyper2_device_backend
      (None :: serial_call list dc_device option)"
    and f3: "foreign_handle Reefnet_sensuspro_device_backend
        (Some (sample_device Suunto_vyper2_device_backend False))"
    and f4: "foreign_handle Suunto_vyper2_device_backend
        (Some (sample_device Reefnet_sensuspro_device_backend False))"
    by (simp_all add: foreign_handle_def sample_device_def)
  note n = family_guard_rejects [where a = "None :: serial_call list dc_device option"
      and ext = "recording_transport 1 12 []" and ts = 0
      and callback = "Some counting_callback" and u = "0 :: nat"]
  note v = family_guard_rejects [where a = "Some (sample_device Suunto_vyper2_device_backend False)"
      and ext = "recording_transport 1 12 []" and ts = 5
      and callback = "Some counting_callback" and u = "0 :: nat"]
  note r = family_guard_rejects [where a = "Some (sample_device Reefnet_sensuspro_device_backend False)"
      and ext = "recording_transport 1 12 []" and ts = 5
      and callback = "Some counting_callback" and u = "0 :: nat"]
  show ?thesis
    using f1 f2 f3 f4 n v r by simp
qed

section \<open>Event flags: packing and unpacking\<close>

lemmas sample_flags_defs =
  SAMPLE_FLAGS_NONE_def SAMPLE_FLAGS_BEGIN_def SAMPLE_FLAGS_END_def
  SAMPLE_FLAGS_SEVERITY_MASK_def SAMPLE_FLAGS_SEVERITY_SHIFT_def
  SAMPLE_FLAGS_SEVERITY_MISSING_def SAMPLE_FLAGS_SEVERITY_STATE_def
  SAMPLE_FLAGS_SEVERITY_INFO_def SAMPLE_FLAGS_SEVERITY_WARN_def
  SAMPLE_FLAGS_SEVERITY_ALARM_def SAMPLE_FLAGS_TYPE_SHIFT_def SAMPLE_FLAGS_TYPE_MASK_def
  SAMPLE_FLAGS_TYPE_NONE_def SAMPLE_FLAGS_TYPE_INTEREST_def SAMPLE_FLAGS_TYPE_NAVPOINT_def
  SAMPLE_FLAGS_TYPE_DANGER_def SAMPLE_FLAGS_TYPE_ANIMAL_def SAMPLE_FLAGS_TYPE_ISSUE_def
  SAMPLE_FLAGS_TYPE_INJURY_def

lemma pack_value:
  "pack_event_flags b e sev ty =
     word_of_nat ((if b then 1 else 0) + (if e then 2 else 0)
       + 4 * severity_index sev + 32 * annotation_index ty)"
  by (cases b; cases e; cases sev; cases ty) (simp_all add: pack_event_flags_def sample_flags_defs)

text \<open>
  Claim C9. Packing the begin and end flags, a severity and an annotation type into one
  word and unpacking the word gives back every component, for both values of each flag, the
  five severities and the seven annotation types. The begin flag is bit 0, the end flag
  bit 1; the bits 2 to 4, shifted down, are the number of the severity (0 to 4), the bits 5
  to 7 that of the annotation type (0 to 6).
\<close>

theorem event_flags_roundtrip:
  "unpack_event_flags (pack_event_flags b e sev ty) = (b, e, Some sev, Some ty)
   \<and> severity_number (pack_event_flags b e sev ty) = severity_index sev
   \<and> annotation_number (pack_event_flags b e sev ty) = annotation_index ty
   \<and> (bit (pack_event_flags b e sev ty) 0 \<longleftrightarrow> b)
   \<and> (bit (pack_event_flags b e sev ty) 1 \<longleftrightarrow> e)"
  by (cases b; cases e; cases sev; cases ty)
     (simp_all add: pack_value unpack_event_flags_def severity_of_def annotation_of_def
        severity_number_def annotation_number_def sample_flags_defs Let_def)

end
